theory Spec2Isabelle
  imports Main "HOL-Library.AList"
begin

section \<open>Shared utilities (packages/core/src/utils.ts)\<close>

text \<open>
  JavaScript strings are modelled as \<^typ>\<open>string\<close>. The only characters the code below
  inspects are ASCII (the single quote, the colon and the letters of a few keywords), so
  the difference between UTF-16 code units and bytes does not matter for them. The one
  place where the encoding of a string matters is the digest of the webhook token; the
  reading of a string as bytes is fixed there.
\<close>

definition quote_char :: char where
  "quote_char = CHR 0x27"

definition backslash_char :: char where
  "backslash_char = CHR 0x5C"

definition newline_char :: char where
  "newline_char = CHR 0x0A"

text \<open>
  \<^verbatim>\<open>arg.replace(/'/g, "'\\''")\<close>: every single quote becomes the four characters
  quote, backslash, quote, quote; every other character is kept.
\<close>

definition replace_quotes :: "string \<Rightarrow> string" where
  "replace_quotes arg =
     concat (map (\<lambda>c. if c = quote_char
                       then [quote_char, backslash_char, quote_char, quote_char]
                       else [c]) arg)"

definition shellEscape :: "string \<Rightarrow> string" where
  "shellEscape arg = [quote_char] @ replace_quotes arg @ [quote_char]"

subsection \<open>POSIX quoting, as the shell reads one word\<close>

text \<open>
  The characters that mean something to the shell when they stand unquoted
  (POSIX, Shell Command Language, 2.2): the operators, the blanks, the expansion
  characters and the pattern characters.
\<close>

definition shell_special :: "char \<Rightarrow> bool" where
  "shell_special c =
     (c \<in> set ''|&;<>()$`*?[#~=%'' \<or> c = CHR 0x20 \<or> c = CHR 0x09 \<or> c = CHR 0x22
      \<or> c = newline_char \<or> c = quote_char \<or> c = backslash_char)"

text \<open>
  Quote removal on one word. Outside quotes a single quote opens a quoted part, a
  backslash makes the next character literal (backslash-newline is a line
  continuation and disappears), any other special character ends the word or starts
  an expansion: the text is then not one literal word and the result is \<open>None\<close>.
  Inside single quotes every character is literal up to the closing quote; a word
  that ends inside the quotes is unterminated.
\<close>

fun posix_outside :: "string \<Rightarrow> string option"
  and posix_single :: "string \<Rightarrow> string option" where
  "posix_outside [] = Some []"
| "posix_outside (c # cs) =
     (if c = quote_char then posix_single cs
      else if c = backslash_char then
        (case cs of
           [] \<Rightarrow> None
         | d # ds \<Rightarrow>
             if d = newline_char then posix_outside ds
             else map_option ((#) d) (posix_outside ds))
      else if shell_special c then None
      else map_option ((#) c) (posix_outside cs))"
| "posix_single [] = None"
| "posix_single (c # cs) =
     (if c = quote_char then posix_outside cs else map_option ((#) c) (posix_single cs))"

definition posix_word :: "string \<Rightarrow> string option" where
  "posix_word w = posix_outside w"

section \<open>JavaScript values and errors\<close>

text \<open>
  A value of TypeScript type \<^verbatim>\<open>any\<close> that came out of \<^verbatim>\<open>JSON.parse\<close>, or is
  \<^verbatim>\<open>undefined\<close>. Objects keep their entries in order; a property is looked up by key.
\<close>

datatype json =
    JUndefined
  | JNull
  | JBool bool
  | JNum int
  | JStr string
  | JArr "json list"
  | JObj "(string \<times> json) list"

text \<open>A thrown JavaScript error: its \<^verbatim>\<open>name\<close>, its \<^verbatim>\<open>code\<close> (if any) and its message.\<close>

datatype js_error = JsError (err_name: string) (err_code: "string option") (err_message: string)

definition new_Error :: "string \<Rightarrow> js_error" where
  "new_Error msg = JsError ''Error'' None msg"

definition TypeError :: "string \<Rightarrow> js_error" where
  "TypeError msg = JsError ''TypeError'' None msg"

text \<open>
  \<^verbatim>\<open>v.k\<close> for the property names the code reads (\<^verbatim>\<open>object_attributes\<close>, \<^verbatim>\<open>project\<close>,
  \<^verbatim>\<open>action\<close>): reading a property of \<^verbatim>\<open>null\<close> or \<^verbatim>\<open>undefined\<close> throws a TypeError, an
  object gives the entry or \<^verbatim>\<open>undefined\<close>, and a primitive or an array has no such
  property.
\<close>

fun get_prop :: "json \<Rightarrow> string \<Rightarrow> js_error + json" where
  "get_prop JUndefined k =
     Inl (TypeError (''Cannot read properties of undefined (reading ''
                     @ [quote_char] @ k @ [quote_char] @ '')''))"
| "get_prop JNull k =
     Inl (TypeError (''Cannot read properties of null (reading ''
                     @ [quote_char] @ k @ [quote_char] @ '')''))"
| "get_prop (JObj kvs) k = Inr (case map_of kvs k of None \<Rightarrow> JUndefined | Some v \<Rightarrow> v)"
| "get_prop v k = Inr JUndefined"

definition nullish :: "json \<Rightarrow> bool" where
  "nullish v = (v = JUndefined \<or> v = JNull)"

text \<open>\<^verbatim>\<open>v?.k\<close>: \<^verbatim>\<open>undefined\<close> when \<^verbatim>\<open>v\<close> is nullish, the property otherwise.\<close>

definition opt_chain :: "json \<Rightarrow> string \<Rightarrow> js_error + json" where
  "opt_chain v k = (if nullish v then Inr JUndefined else get_prop v k)"

text \<open>\<^verbatim>\<open>a ?? b\<close> on values.\<close>

definition coalesce :: "json \<Rightarrow> json \<Rightarrow> json" where
  "coalesce a b = (if nullish a then b else a)"

section \<open>The webhook handler (tracker-gitlab)\<close>

text \<open>
  \<^verbatim>\<open>GitLabWebhookEvent\<close>: the three shapes of a normalized event. The declared type of
  \<^verbatim>\<open>action\<close> is \<^verbatim>\<open>string\<close>, but the value is whatever the payload holds.
\<close>

datatype GitLabWebhookEvent =
    Issue (action: json) (issue: json) (project: json)
  | MergeRequest (action: json) (merge_request: json) (project: json)
  | Unknown (payload: json)

text \<open>
  \<^verbatim>\<open>headers: Record<string, string | undefined>\<close>: a key that is absent and a key bound
  to \<^verbatim>\<open>undefined\<close> read the same, so the headers are a partial map.
\<close>

type_synonym headers = "string \<rightharpoonup> string"

text \<open>\<^verbatim>\<open>headers["x-gitlab-token"] ?? headers["X-Gitlab-Token"]\<close>\<close>

definition tokenHeader :: "headers \<Rightarrow> string option" where
  "tokenHeader hs =
     (case hs ''x-gitlab-token'' of Some v \<Rightarrow> Some v | None \<Rightarrow> hs ''X-Gitlab-Token'')"

text \<open>\<^verbatim>\<open>headers["x-gitlab-event"] ?? headers["X-Gitlab-Event"] ?? ""\<close>\<close>

definition eventHeader :: "headers \<Rightarrow> string" where
  "eventHeader hs =
     (case hs ''x-gitlab-event'' of
        Some v \<Rightarrow> v
      | None \<Rightarrow> (case hs ''X-Gitlab-Event'' of Some v \<Rightarrow> v | None \<Rightarrow> []))"

text \<open>
  The second half of \<^verbatim>\<open>handleWebhook\<close>, the same text in webhookHandler.ts (lines 49 to 67)
  and in the earlier handler (src/unnamed/part_002, lines 25 to 33). The object literal is
  evaluated field by field, so the first property read of a nullish payload throws.
\<close>

definition normalize_event :: "headers \<Rightarrow> json \<Rightarrow> js_error + GitLabWebhookEvent" where
  "normalize_event hs pl =
     (let event = eventHeader hs in
      if event = ''Issue Hook'' then
        (case get_prop pl ''object_attributes'' of
           Inl e \<Rightarrow> Inl e
         | Inr oa \<Rightarrow>
             (case opt_chain oa ''action'' of
                Inl e \<Rightarrow> Inl e
              | Inr a \<Rightarrow>
                  (case get_prop pl ''project'' of
                     Inl e \<Rightarrow> Inl e
                   | Inr pr \<Rightarrow> Inr (Issue (coalesce a (JStr ''unknown'')) oa pr))))
      else if event = ''Merge Request Hook'' then
        (case get_prop pl ''object_attributes'' of
           Inl e \<Rightarrow> Inl e
         | Inr oa \<Rightarrow>
             (case opt_chain oa ''action'' of
                Inl e \<Rightarrow> Inl e
              | Inr a \<Rightarrow>
                  (case get_prop pl ''project'' of
                     Inl e \<Rightarrow> Inl e
                   | Inr pr \<Rightarrow> Inr (MergeRequest (coalesce a (JStr ''unknown'')) oa pr))))
      else Inr (Unknown pl))"

text \<open>
  What the validation step does with the token, in the order it does it: a call of
  \<^verbatim>\<open>crypto.createHash("sha256").update(s, "utf8").digest()\<close>, a call of
  \<^verbatim>\<open>crypto.timingSafeEqual\<close> on two buffers, or a plain \<^verbatim>\<open>!==\<close> on the raw values.
\<close>

datatype validation_op =
    Sha256Digest string
  | TimingSafeEqual string string
  | StrictNotEqual "string option" string

text \<open>
  \<^verbatim>\<open>crypto.timingSafeEqual(a, b)\<close> throws a RangeError when the buffers differ in length
  and compares them otherwise.
\<close>

definition timingSafeEqual :: "string \<Rightarrow> string \<Rightarrow> js_error + bool" where
  "timingSafeEqual a b =
     (if length a \<noteq> length b
      then Inl (JsError ''RangeError'' (Some ''ERR_CRYPTO_TIMING_SAFE_EQUAL_LENGTH'')
                 ''Input buffers must have the same byte length'')
      else Inr (a = b))"

definition invalid_token :: js_error where
  "invalid_token = new_Error ''Invalid webhook token''"

text \<open>\<^verbatim>\<open>String(tokenHeader ?? "")\<close>\<close>

definition headerStr :: "headers \<Rightarrow> string" where
  "headerStr hs = (case tokenHeader hs of None \<Rightarrow> [] | Some v \<Rightarrow> v)"

text \<open>
  \<^verbatim>\<open>handleWebhook\<close> of webhookHandler.ts. The digest function of node:crypto is the
  parameter \<open>digest\<close>. \<^verbatim>\<open>if (secret)\<close> holds for a secret that is present and not
  empty. The result is the list of validation operations performed and the value
  returned or the error thrown.
\<close>

definition handleWebhook ::
  "(string \<Rightarrow> string) \<Rightarrow> headers \<Rightarrow> json \<Rightarrow> string option
     \<Rightarrow> validation_op list \<times> (js_error + GitLabWebhookEvent)" where
  "handleWebhook digest hs pl secret =
     (case secret of
        Some secretStr \<Rightarrow>
          if secretStr \<noteq> [] then
            (let headerHash = digest (headerStr hs);
                 secretHash = digest secretStr;
                 ok = (case timingSafeEqual headerHash secretHash of
                         Inl e \<Rightarrow> False
                       | Inr b \<Rightarrow> b);
                 ops = [Sha256Digest (headerStr hs), Sha256Digest secretStr,
                        TimingSafeEqual headerHash secretHash]
             in if \<not> ok then (ops, Inl invalid_token) else (ops, normalize_event hs pl))
          else ([], normalize_event hs pl)
      | None \<Rightarrow> ([], normalize_event hs pl))"

text \<open>
  \<^verbatim>\<open>handleWebhook\<close> of the earlier handler (src/unnamed/part_002):
  \<^verbatim>\<open>if (secret && tokenHeader !== secret) throw new Error("Invalid webhook token")\<close>.
\<close>

definition handleWebhook_part002 ::
  "headers \<Rightarrow> json \<Rightarrow> string option
     \<Rightarrow> validation_op list \<times> (js_error + GitLabWebhookEvent)" where
  "handleWebhook_part002 hs pl secret =
     (case secret of
        Some secretStr \<Rightarrow>
          if secretStr \<noteq> [] then
            (if tokenHeader hs \<noteq> Some secretStr
             then ([StrictNotEqual (tokenHeader hs) secretStr], Inl invalid_token)
             else ([StrictNotEqual (tokenHeader hs) secretStr], normalize_event hs pl))
          else ([], normalize_event hs pl)
      | None \<Rightarrow> ([], normalize_event hs pl))"


text \<open>
  The shape of a validation operation: which call it is and how long the compared
  buffers are, without the data.
\<close>

datatype op_shape = DigestCall | ConstantTimeCompare nat nat | RawCompare

fun shape_of :: "validation_op \<Rightarrow> op_shape" where
  "shape_of (Sha256Digest s) = DigestCall"
| "shape_of (TimingSafeEqual a b) = ConstantTimeCompare (length a) (length b)"
| "shape_of (StrictNotEqual h s) = RawCompare"

text \<open>A property of a value that cannot throw: \<^verbatim>\<open>undefined\<close> where \<open>get_prop\<close> throws.\<close>

definition field :: "json \<Rightarrow> string \<Rightarrow> json" where
  "field v k = (case get_prop v k of Inl e \<Rightarrow> JUndefined | Inr x \<Rightarrow> x)"

text \<open>
  A stand-in for the digest parameter in concrete examples: the input cut or padded
  with zero bytes to 32 bytes.
\<close>

definition pad32 :: "string \<Rightarrow> string" where
  "pad32 s = take 32 (s @ replicate 32 (CHR 0x00))"

text \<open>
  The digest the handler computes is \<^verbatim>\<open>createHash("sha256").update(s, "utf8").digest()\<close>:
  the string is first encoded as UTF-8 and the bytes are hashed. The encoding is not
  one-to-one on JavaScript strings, because a string may hold an unpaired surrogate
  (a code unit from D800 to DFFF that is not half of a pair), and every unpaired
  surrogate is encoded as the replacement character, the bytes EF BF BD.

  To have such strings in the model, a string is read as its bytes in UTF-8 with an
  unpaired surrogate written as the three bytes its own code point would take: ED,
  then a byte from A0 to BF, then a byte from 80 to BF (the string \<^verbatim>\<open>"\ud800"\<close> is
  ED A0 80 and \<^verbatim>\<open>"\ud801"\<close> is ED A0 81). Different strings have different bytes, an
  ASCII string is its own bytes, and the byte ED never stands inside another
  character. \<open>utf8\<close> is then the encoding the digest sees: every unpaired surrogate
  becomes EF BF BD and all other bytes stay.
\<close>

fun utf8 :: "string \<Rightarrow> string" where
  "utf8 (a # b # c # cs) =
     (if a = CHR 0xED \<and> (0xA0 :: nat) \<le> of_char b \<and> (of_char b :: nat) \<le> 0xBF
      then CHR 0xEF # CHR 0xBF # CHR 0xBD # utf8 cs
      else a # utf8 (b # c # cs))"
| "utf8 cs = cs"

text \<open>The digest call of the handler, for a hash function \<open>sha\<close> on bytes.\<close>

definition node_digest :: "(string \<Rightarrow> string) \<Rightarrow> string \<Rightarrow> string" where
  "node_digest sha s = sha (utf8 s)"


section \<open>The GitLab REST client (tracker-gitlab)\<close>

text \<open>Decimal digits of a number, as template literals print it.\<close>

fun decimal :: "nat \<Rightarrow> string" where
  "decimal n =
     (if n < 10 then [''0123456789'' ! n]
      else decimal (n div 10) @ [''0123456789'' ! (n mod 10)])"

declare decimal.simps [simp del]

definition decimal_int :: "int \<Rightarrow> string" where
  "decimal_int i = (if i < 0 then CHR ''-'' # decimal (nat (- i)) else decimal (nat i))"

text \<open>
  \<^verbatim>\<open>GitLabClientOptions\<close> and the fields the constructor sets from it. The base URL is
  left out: it decides where a request is sent, and the network is an input of the
  model.
\<close>

record GitLabClientOptions =
  opt_token :: string
  opt_timeoutMs :: "int option"
  opt_maxRetries :: "int option"

record GitLabClient =
  token :: string
  timeoutMs :: int
  maxRetries :: int

text \<open>\<^verbatim>\<open>opts.timeoutMs ?? 15_000\<close> and \<^verbatim>\<open>opts.maxRetries ?? 3\<close>\<close>

definition new_GitLabClient :: "GitLabClientOptions \<Rightarrow> GitLabClient" where
  "new_GitLabClient opts =
     \<lparr>token = opt_token opts,
      timeoutMs = (case opt_timeoutMs opts of None \<Rightarrow> 15000 | Some t \<Rightarrow> t),
      maxRetries = (case opt_maxRetries opts of None \<Rightarrow> 3 | Some m \<Rightarrow> m)\<rparr>"

text \<open>
  What the code reads of a \<^verbatim>\<open>Response\<close>: the status, the status text and the body
  text (\<^verbatim>\<open>await res.text().catch(() => "")\<close>, so a body that cannot be read is empty).
\<close>

record response =
  status :: nat
  statusText :: string
  bodyText :: string

text \<open>
  How one attempt's network call ends: \<^verbatim>\<open>fetch\<close> resolves with a response, \<^verbatim>\<open>fetch\<close>
  rejects with an error, or the timeout timer fires first.
\<close>

datatype fetch_outcome = Responded response | Rejected js_error | TimerFired

text \<open>
  The environment of a request: \<open>net k\<close> is how the network call of attempt \<open>k\<close>
  ends, \<open>jitter k\<close> is the value of \<^verbatim>\<open>Math.floor(Math.random() * 100)\<close> drawn in attempt
  \<open>k\<close>, and \<open>parse\<close> is \<^verbatim>\<open>JSON.parse\<close> (\<open>None\<close> when it throws a SyntaxError).
\<close>

record env =
  net :: "nat \<Rightarrow> fetch_outcome"
  jitter :: "nat \<Rightarrow> nat"
  parse :: "string \<Rightarrow> json option"

text \<open>
  The observable state of a running request: the attempts made, the backoff delays
  slept so far (milliseconds, in order), and the timeout timers that are armed and
  have neither fired nor been cancelled (the attempt that armed them, their delay).
\<close>

record req_state =
  attempt :: nat
  sleeps :: "nat list"
  pending :: "(nat \<times> int) list"

definition init_state :: req_state where
  "init_state = \<lparr>attempt = 0, sleeps = [], pending = []\<rparr>"

text \<open>How the body of one loop iteration ends.\<close>

datatype step = Return json | Throw js_error | Continue nat

text \<open>\<^verbatim>\<open>100 * 2 ** (attempt - 1)\<close>\<close>

definition backoff :: "nat \<Rightarrow> nat" where
  "backoff a = 100 * 2 ^ (a - 1)"

text \<open>
  \<^verbatim>\<open>new Error(`GitLab API ${res.status} ${res.statusText}: ${text.slice(0, 1000)}`)\<close>
\<close>

definition api_error :: "response \<Rightarrow> js_error" where
  "api_error res =
     new_Error (''GitLab API '' @ decimal (status res) @ '' '' @ statusText res @ '': ''
                @ take 1000 (bodyText res))"

definition syntax_error :: js_error where
  "syntax_error = JsError ''SyntaxError'' None ''Unexpected token in JSON''"

text \<open>
  The statements after \<^verbatim>\<open>res.text()\<close> inside the \<^verbatim>\<open>try\<close> block, the same text in
  gitlabClient.ts (lines 137 to 151) and client.ts (lines 74 to 89): a 2xx response
  returns the parsed body (\<^verbatim>\<open>undefined\<close> for an empty one), a 429 or a status from 500
  sleeps and continues while attempts are left, and everything else throws.
\<close>

definition on_response :: "GitLabClient \<Rightarrow> env \<Rightarrow> nat \<Rightarrow> response \<Rightarrow> step" where
  "on_response c e a res =
     (if 200 \<le> status res \<and> status res < 300 then
        (if bodyText res = [] then Return JUndefined
         else (case parse e (bodyText res) of
                 Some v \<Rightarrow> Return v
               | None \<Rightarrow> Throw syntax_error))
      else if (status res = 429 \<or> 500 \<le> status res) \<and> int a < maxRetries c then
        Continue (backoff a + jitter e a)
      else Throw (api_error res))"

text \<open>The error the timeout promise of gitlabClient.ts rejects with.\<close>

definition timeout_error :: "GitLabClient \<Rightarrow> js_error" where
  "timeout_error c =
     JsError ''TimeoutError'' None
       (''GitLab API request timed out after '' @ decimal_int (timeoutMs c) @ ''ms'')"

text \<open>
  The error \<^verbatim>\<open>fetch\<close> rejects with in client.ts when the timer has aborted its
  controller.
\<close>

definition abort_error :: js_error where
  "abort_error = JsError ''AbortError'' None ''This operation was aborted''"

text \<open>The \<^verbatim>\<open>catch\<close> block of gitlabClient.ts (lines 152 to 161).\<close>

definition gitlabClient_catch :: "GitLabClient \<Rightarrow> env \<Rightarrow> nat \<Rightarrow> js_error \<Rightarrow> step" where
  "gitlabClient_catch c e a err =
     (let isAbort = (err_name err = ''AbortError'' \<or> err_name err = ''TimeoutError'') in
      if (isAbort \<or> err_code err = Some ''ECONNRESET'' \<or> err_code err = Some ''ENOTFOUND'')
         \<and> int a < maxRetries c
      then Continue (backoff a + jitter e a)
      else Throw err)"

text \<open>The \<^verbatim>\<open>catch\<close> block of client.ts (lines 90 to 98).\<close>

definition client_catch :: "GitLabClient \<Rightarrow> env \<Rightarrow> nat \<Rightarrow> js_error \<Rightarrow> step" where
  "client_catch c e a err =
     (let isAbort = (err_name err = ''AbortError'') in
      if (isAbort \<or> err_code err = Some ''ECONNRESET'' \<or> err_code err = Some ''ENOTFOUND'')
         \<and> int a < maxRetries c
      then Continue (backoff a + jitter e a)
      else Throw err)"

text \<open>
  One iteration of gitlabClient.ts: the \<^verbatim>\<open>try\<close> block, and the \<^verbatim>\<open>catch\<close> block for
  whatever the \<^verbatim>\<open>try\<close> block throws.
\<close>

definition gitlabClient_attempt :: "GitLabClient \<Rightarrow> env \<Rightarrow> nat \<Rightarrow> step" where
  "gitlabClient_attempt c e a =
     (let tried = (case net e a of
                     Responded res \<Rightarrow> on_response c e a res
                   | Rejected err \<Rightarrow> Throw err
                   | TimerFired \<Rightarrow> Throw (timeout_error c))
      in case tried of
           Throw err \<Rightarrow> gitlabClient_catch c e a err
         | Return v \<Rightarrow> Return v
         | Continue d \<Rightarrow> Continue d)"

definition client_attempt :: "GitLabClient \<Rightarrow> env \<Rightarrow> nat \<Rightarrow> step" where
  "client_attempt c e a =
     (let tried = (case net e a of
                     Responded res \<Rightarrow> on_response c e a res
                   | Rejected err \<Rightarrow> Throw err
                   | TimerFired \<Rightarrow> Throw abort_error)
      in case tried of
           Throw err \<Rightarrow> client_catch c e a err
         | Return v \<Rightarrow> Return v
         | Continue d \<Rightarrow> Continue d)"

text \<open>Arming the timeout timer of an attempt; a timer that fires is no longer pending.\<close>

definition arm_timer :: "GitLabClient \<Rightarrow> nat \<Rightarrow> req_state \<Rightarrow> req_state" where
  "arm_timer c a st = st\<lparr>pending := pending st @ [(a, timeoutMs c)]\<rparr>"

definition remove_timer :: "nat \<Rightarrow> req_state \<Rightarrow> req_state" where
  "remove_timer a st = st\<lparr>pending := filter (\<lambda>t. fst t \<noteq> a) (pending st)\<rparr>"

definition race :: "fetch_outcome \<Rightarrow> nat \<Rightarrow> req_state \<Rightarrow> req_state" where
  "race outcome a st = (case outcome of TimerFired \<Rightarrow> remove_timer a st | _ \<Rightarrow> st)"

lemma gitlabClient_attempt_Continue:
  "gitlabClient_attempt c e a = Continue d \<Longrightarrow> int a < maxRetries c"
  by (auto simp add: gitlabClient_attempt_def gitlabClient_catch_def on_response_def Let_def
        split: fetch_outcome.splits step.splits if_splits option.splits)

lemma client_attempt_Continue:
  "client_attempt c e a = Continue d \<Longrightarrow> int a < maxRetries c"
  by (auto simp add: client_attempt_def client_catch_def on_response_def Let_def
        split: fetch_outcome.splits step.splits if_splits option.splits)

text \<open>
  The loop of \<^verbatim>\<open>request\<close> in gitlabClient.ts (lines 97 to 172). Every iteration arms the
  timer, runs the attempt, and on every way out (\<^verbatim>\<open>return\<close>, \<^verbatim>\<open>throw\<close>, \<^verbatim>\<open>continue\<close>)
  the \<^verbatim>\<open>finally\<close> block aborts the timer's controller.
\<close>

function gitlabClient_loop :: "GitLabClient \<Rightarrow> env \<Rightarrow> req_state \<Rightarrow> (js_error + json) \<times> req_state" where
  "gitlabClient_loop c e st =
     (let a = attempt st + 1;
          raced = race (net e a) a (arm_timer c a (st\<lparr>attempt := a\<rparr>))
      in case gitlabClient_attempt c e a of
           Return v \<Rightarrow> (Inr v, remove_timer a raced)
         | Throw err \<Rightarrow> (Inl err, remove_timer a raced)
         | Continue d \<Rightarrow>
             gitlabClient_loop c e (remove_timer a (raced\<lparr>sleeps := sleeps raced @ [d]\<rparr>)))"
  by pat_completeness auto
termination
  by (relation "measure (\<lambda>(c, e, st). nat (maxRetries c - int (attempt st)))")
     (auto simp add: remove_timer_def race_def arm_timer_def
        dest!: gitlabClient_attempt_Continue split: fetch_outcome.splits)

declare gitlabClient_loop.simps [simp del]

definition gitlabClient_request :: "GitLabClient \<Rightarrow> env \<Rightarrow> (js_error + json) \<times> req_state" where
  "gitlabClient_request c e = gitlabClient_loop c e init_state"

text \<open>
  The loop of \<^verbatim>\<open>request\<close> in client.ts (lines 49 to 100). There is no \<^verbatim>\<open>finally\<close> block
  and nothing cancels the timer.
\<close>

function client_loop :: "GitLabClient \<Rightarrow> env \<Rightarrow> req_state \<Rightarrow> (js_error + json) \<times> req_state" where
  "client_loop c e st =
     (let a = attempt st + 1;
          raced = race (net e a) a (arm_timer c a (st\<lparr>attempt := a\<rparr>))
      in case client_attempt c e a of
           Return v \<Rightarrow> (Inr v, raced)
         | Throw err \<Rightarrow> (Inl err, raced)
         | Continue d \<Rightarrow> client_loop c e (raced\<lparr>sleeps := sleeps raced @ [d]\<rparr>))"
  by pat_completeness auto
termination
  by (relation "measure (\<lambda>(c, e, st). nat (maxRetries c - int (attempt st)))")
     (auto simp add: remove_timer_def race_def arm_timer_def
        dest!: client_attempt_Continue split: fetch_outcome.splits)

declare client_loop.simps [simp del]

definition client_request :: "GitLabClient \<Rightarrow> env \<Rightarrow> (js_error + json) \<times> req_state" where
  "client_request c e = client_loop c e init_state"

text \<open>
  A response with a server-error status in the sense of the specification: 429, or 500
  to 599.
\<close>

fun server_error :: "fetch_outcome \<Rightarrow> bool" where
  "server_error (Responded res) = (status res = 429 \<or> (500 \<le> status res \<and> status res < 600))"
| "server_error outcome = False"

fun the_response :: "fetch_outcome \<Rightarrow> response option" where
  "the_response (Responded res) = Some res"
| "the_response outcome = None"

text \<open>
  The delays slept by \<open>n\<close> retries after attempt \<open>a\<close>, and the timers armed by them.
\<close>

definition retry_sleeps :: "env \<Rightarrow> nat \<Rightarrow> nat \<Rightarrow> nat list" where
  "retry_sleeps e a n = map (\<lambda>k. backoff k + jitter e k) [Suc a ..< Suc (a + n)]"

definition armed_timers :: "GitLabClient \<Rightarrow> nat \<Rightarrow> nat \<Rightarrow> (nat \<times> int) list" where
  "armed_timers c a n = map (\<lambda>k. (k, timeoutMs c)) [Suc a ..< Suc (a + n)]"

text \<open>A client built with the default options, and a few responses, for concrete runs.\<close>

definition example_client :: GitLabClient where
  "example_client = new_GitLabClient \<lparr>opt_token = ''glpat-example'', opt_timeoutMs = None, opt_maxRetries = None\<rparr>"

definition busy :: response where
  "busy = \<lparr>status = 503, statusText = ''Service Unavailable'', bodyText = ''busy''\<rparr>"

definition ok_empty :: response where
  "ok_empty = \<lparr>status = 200, statusText = ''OK'', bodyText = []\<rparr>"

definition not_found :: response where
  "not_found = \<lparr>status = 404, statusText = ''Not Found'', bodyText = ''{}''\<rparr>"

definition env_of :: "(nat \<Rightarrow> fetch_outcome) \<Rightarrow> env" where
  "env_of f = \<lparr>net = f, jitter = (\<lambda>k. 7), parse = (\<lambda>s. None)\<rparr>"

section \<open>The tracker adapter (tracker-gitlab)\<close>

text \<open>
  \<^verbatim>\<open>String.prototype.toLowerCase\<close> on the ASCII letters. Characters outside ASCII are left
  as they are; none of them lowers to a letter of the words the adapter compares with.
\<close>

definition is_upper :: "char \<Rightarrow> bool" where
  "is_upper c = (65 \<le> (of_char c :: nat) \<and> (of_char c :: nat) \<le> 90)"

definition lower_char :: "char \<Rightarrow> char" where
  "lower_char c = (if is_upper c then char_of ((of_char c :: nat) + 32) else c)"

definition toLowerCase :: "string \<Rightarrow> string" where
  "toLowerCase s = map lower_char s"

text \<open>
  Equality of two strings up to the case of their ASCII letters, position by position.
\<close>

definition same_letter :: "char \<Rightarrow> char \<Rightarrow> bool" where
  "same_letter a b =
     (a = b \<or> (is_upper a \<and> (of_char b :: nat) = of_char a + 32)
            \<or> (is_upper b \<and> (of_char a :: nat) = of_char b + 32))"

definition case_insensitive_eq :: "string \<Rightarrow> string \<Rightarrow> bool" where
  "case_insensitive_eq s t = list_all2 same_letter s t"

text \<open>The normalized issue of the tracker contract; \<^verbatim>\<open>Issue["state"]\<close> as the adapter sets it.\<close>

datatype issue_state = IssueOpen | IssueClosed

record Issue =
  issue_id :: string
  issue_title :: string
  issue_description :: string
  issue_url :: "string option"
  issue_state :: issue_state
  issue_labels :: "string list"
  issue_assignee :: "string option"

text \<open>
  An issue as the GitLab API returns it, with the fields the adapter reads. A field
  that may be missing is an option; \<^verbatim>\<open>state\<close> has the type \<^verbatim>\<open>mapState\<close> declares for its
  argument, \<^verbatim>\<open>string | undefined\<close>.
\<close>

record gl_user =
  username :: "string option"

record gl_issue =
  gl_iid :: nat
  gl_title :: string
  gl_description :: "string option"
  gl_web_url :: "string option"
  gl_state :: "string option"
  gl_labels :: "string list option"
  gl_assignees :: "gl_user list option"

text \<open>\<^verbatim>\<open>mapState\<close>, the same text in adapter.ts and in src/unnamed/part_003
  (lines 26 to 31).\<close>

definition mapState :: "string option \<Rightarrow> issue_state" where
  "mapState state =
     (let s = toLowerCase (case state of None \<Rightarrow> [] | Some v \<Rightarrow> v) in
      if s = ''closed'' then IssueClosed
      else if s = ''reopened'' \<or> s = ''opened'' then IssueOpen
      else IssueOpen)"

text \<open>\<^verbatim>\<open>String(v)\<close> for a string or \<^verbatim>\<open>undefined\<close>.\<close>

definition js_String :: "string option \<Rightarrow> string" where
  "js_String v = (case v of None \<Rightarrow> ''undefined'' | Some s \<Rightarrow> s)"

text \<open>\<^verbatim>\<open>data.assignees && data.assignees[0]?.username\<close>\<close>

definition first_assignee :: "gl_user list option \<Rightarrow> string option" where
  "first_assignee as = (case as of None \<Rightarrow> None | Some [] \<Rightarrow> None | Some (u # us) \<Rightarrow> username u)"

text \<open>
  The tracker methods, from the value \<^verbatim>\<open>client.get\<close> or \<^verbatim>\<open>client.post\<close> resolved with
  (\<open>None\<close> is \<^verbatim>\<open>undefined\<close>, the result for an empty body) to what the method returns.
  What comes before the call (parsing the identifier, building the path) is not part
  of the model; \<open>path\<close> is the request path the error message quotes.

  First the methods of src/unnamed/part_003, which reject an empty body.
\<close>

definition part003_getIssue :: "string \<Rightarrow> gl_issue option \<Rightarrow> js_error + Issue" where
  "part003_getIssue path data =
     (case data of
        None \<Rightarrow> Inl (new_Error (''GitLab API returned empty body for GET '' @ path))
      | Some d \<Rightarrow>
          Inr \<lparr>issue_id = decimal (gl_iid d),
               issue_title = gl_title d,
               issue_description = (case gl_description d of None \<Rightarrow> [] | Some v \<Rightarrow> v),
               issue_url = (case gl_web_url d of None \<Rightarrow> Some [] | Some v \<Rightarrow> Some v),
               issue_state = mapState (gl_state d),
               issue_labels = (case gl_labels d of None \<Rightarrow> [] | Some v \<Rightarrow> v),
               issue_assignee = first_assignee (gl_assignees d)\<rparr>)"

definition part003_isCompleted :: "string \<Rightarrow> gl_issue option \<Rightarrow> js_error + bool" where
  "part003_isCompleted path data =
     (case data of
        None \<Rightarrow> Inl (new_Error (''GitLab API returned empty body for GET '' @ path))
      | Some d \<Rightarrow> Inr (toLowerCase (js_String (gl_state d)) = ''closed''))"

definition part003_listIssues :: "gl_issue list option \<Rightarrow> Issue list" where
  "part003_listIssues data =
     map (\<lambda>d. \<lparr>issue_id = decimal (gl_iid d),
                issue_title = gl_title d,
                issue_description = (case gl_description d of None \<Rightarrow> [] | Some v \<Rightarrow> v),
                issue_url = gl_web_url d,
                issue_state = mapState (gl_state d),
                issue_labels = (case gl_labels d of None \<Rightarrow> [] | Some v \<Rightarrow> v),
                issue_assignee = first_assignee (gl_assignees d)\<rparr>)
       (case data of None \<Rightarrow> [] | Some ds \<Rightarrow> ds)"

definition part003_createIssue :: "string \<Rightarrow> gl_issue option \<Rightarrow> js_error + Issue" where
  "part003_createIssue path created =
     (case created of
        None \<Rightarrow> Inl (new_Error (''GitLab API returned empty body for POST '' @ path))
      | Some d \<Rightarrow>
          Inr \<lparr>issue_id = decimal (gl_iid d),
               issue_title = gl_title d,
               issue_description = (case gl_description d of None \<Rightarrow> [] | Some v \<Rightarrow> v),
               issue_url = gl_web_url d,
               issue_state = mapState (gl_state d),
               issue_labels = (case gl_labels d of None \<Rightarrow> [] | Some v \<Rightarrow> v),
               issue_assignee = first_assignee (gl_assignees d)\<rparr>)"

text \<open>
  The methods of adapter.ts, which read the fields of the result unguarded: on an
  empty body the first property read throws a TypeError.
\<close>

definition adapter_getIssue :: "gl_issue option \<Rightarrow> js_error + Issue" where
  "adapter_getIssue data =
     (case data of
        None \<Rightarrow> Inl (TypeError ''Cannot read properties of undefined (reading iid)'')
      | Some d \<Rightarrow>
          Inr \<lparr>issue_id = decimal (gl_iid d),
               issue_title = gl_title d,
               issue_description = (case gl_description d of None \<Rightarrow> [] | Some v \<Rightarrow> v),
               issue_url = (case gl_web_url d of None \<Rightarrow> gl_web_url d | Some v \<Rightarrow> Some v),
               issue_state = mapState (gl_state d),
               issue_labels = (case gl_labels d of None \<Rightarrow> [] | Some v \<Rightarrow> v),
               issue_assignee = first_assignee (gl_assignees d)\<rparr>)"

definition adapter_isCompleted :: "gl_issue option \<Rightarrow> js_error + bool" where
  "adapter_isCompleted data =
     (case data of
        None \<Rightarrow> Inl (TypeError ''Cannot read properties of undefined (reading state)'')
      | Some d \<Rightarrow> Inr (toLowerCase (js_String (gl_state d)) = ''closed''))"

definition adapter_listIssues :: "gl_issue list option \<Rightarrow> Issue list" where
  "adapter_listIssues data =
     map (\<lambda>d. \<lparr>issue_id = decimal (gl_iid d),
                issue_title = gl_title d,
                issue_description = (case gl_description d of None \<Rightarrow> [] | Some v \<Rightarrow> v),
                issue_url = gl_web_url d,
                issue_state = mapState (gl_state d),
                issue_labels = (case gl_labels d of None \<Rightarrow> [] | Some v \<Rightarrow> v),
                issue_assignee = first_assignee (gl_assignees d)\<rparr>)
       (case data of None \<Rightarrow> [] | Some ds \<Rightarrow> ds)"

definition adapter_createIssue :: "gl_issue option \<Rightarrow> js_error + Issue" where
  "adapter_createIssue created =
     (case created of
        None \<Rightarrow> Inl (TypeError ''Cannot read properties of undefined (reading iid)'')
      | Some d \<Rightarrow>
          Inr \<lparr>issue_id = decimal (gl_iid d),
               issue_title = gl_title d,
               issue_description = (case gl_description d of None \<Rightarrow> [] | Some v \<Rightarrow> v),
               issue_url = gl_web_url d,
               issue_state = mapState (gl_state d),
               issue_labels = (case gl_labels d of None \<Rightarrow> [] | Some v \<Rightarrow> v),
               issue_assignee = first_assignee (gl_assignees d)\<rparr>)"

text \<open>
  The state the specification gives an upstream issue: closed exactly when the state
  field is present and equal to "closed" up to the case of its letters.
\<close>

definition expected_state :: "gl_issue \<Rightarrow> issue_state" where
  "expected_state d =
     (case gl_state d of
        None \<Rightarrow> IssueOpen
      | Some s \<Rightarrow> if case_insensitive_eq s ''closed'' then IssueClosed else IssueOpen)"

section \<open>The plugin registry (core, src/unnamed/part_004)\<close>

text \<open>
  \<^verbatim>\<open>PluginSlot\<close> is declared in types.ts, which is not among the sources; its values
  here are the slots the table \<^verbatim>\<open>BUILTIN_PLUGINS\<close> uses. \<open>slot_name\<close> is the string a
  slot is at run time.
\<close>

datatype PluginSlot = Runtime | Agent | Workspace | Tracker | SCM | Notifier | Terminal

fun slot_name :: "PluginSlot \<Rightarrow> string" where
  "slot_name Runtime = ''runtime''"
| "slot_name Agent = ''agent''"
| "slot_name Workspace = ''workspace''"
| "slot_name Tracker = ''tracker''"
| "slot_name SCM = ''scm''"
| "slot_name Notifier = ''notifier''"
| "slot_name Terminal = ''terminal''"

record PluginManifest =
  manifest_name :: string
  manifest_slot :: PluginSlot
  manifest_description :: string
  manifest_version :: string

text \<open>
  A plugin configuration is \<^verbatim>\<open>Record<string, unknown> | undefined\<close>. A plugin module
  exports its manifest and \<^verbatim>\<open>create\<close>, which builds an instance or throws; the
  instances are values of any type \<open>'i\<close>.
\<close>

type_synonym plugin_config = "(string \<times> json) list option"

record 'i PluginModule =
  manifest :: PluginManifest
  create :: "plugin_config \<Rightarrow> js_error + 'i"

record 'i entry =
  entry_manifest :: PluginManifest
  entry_instance :: 'i

text \<open>
  \<^verbatim>\<open>PluginMap\<close>, a JavaScript \<^verbatim>\<open>Map\<close>: the entries in insertion order. \<^verbatim>\<open>Map.set\<close> replaces
  the value of a key that is present, in place, and appends a new key; that is
  \<^const>\<open>AList.update\<close>.
\<close>

type_synonym 'i PluginMap = "(string \<times> 'i entry) list"

definition makeKey :: "PluginSlot \<Rightarrow> string \<Rightarrow> string" where
  "makeKey slot name = slot_name slot @ '':'' @ name"


text \<open>
  The methods of the object \<^verbatim>\<open>createPluginRegistry\<close> returns, over the map \<open>plugins\<close>
  they close over. A method returns its result and the map it leaves.
\<close>

definition createPluginRegistry :: "'i PluginMap" where
  "createPluginRegistry = []"

definition register :: "'i PluginModule \<Rightarrow> plugin_config \<Rightarrow> 'i PluginMap \<Rightarrow> js_error + 'i PluginMap" where
  "register plugin config plugins =
     (let key = makeKey (manifest_slot (manifest plugin)) (manifest_name (manifest plugin)) in
      case create plugin config of
        Inl e \<Rightarrow> Inl e
      | Inr instance \<Rightarrow>
          Inr (AList.update key \<lparr>entry_manifest = manifest plugin, entry_instance = instance\<rparr> plugins))"

definition get :: "PluginSlot \<Rightarrow> string \<Rightarrow> 'i PluginMap \<Rightarrow> 'i option \<times> 'i PluginMap" where
  "get slot name plugins =
     (case map_of plugins (makeKey slot name) of
        Some entry \<Rightarrow> (Some (entry_instance entry), plugins)
      | None \<Rightarrow> (None, plugins))"





text \<open>The table \<^verbatim>\<open>BUILTIN_PLUGINS\<close>.\<close>

record builtin =
  builtin_slot :: PluginSlot
  builtin_name :: string
  builtin_pkg :: string

definition BUILTIN_PLUGINS :: "builtin list" where
  "BUILTIN_PLUGINS =
     [\<lparr>builtin_slot = Runtime, builtin_name = ''tmux'', builtin_pkg = ''@agent-orchestrator/plugin-runtime-tmux''\<rparr>,
      \<lparr>builtin_slot = Runtime, builtin_name = ''process'', builtin_pkg = ''@agent-orchestrator/plugin-runtime-process''\<rparr>,
      \<lparr>builtin_slot = Agent, builtin_name = ''claude-code'', builtin_pkg = ''@agent-orchestrator/plugin-agent-claude-code''\<rparr>,
      \<lparr>builtin_slot = Agent, builtin_name = ''codex'', builtin_pkg = ''@agent-orchestrator/plugin-agent-codex''\<rparr>,
      \<lparr>builtin_slot = Agent, builtin_name = ''aider'', builtin_pkg = ''@agent-orchestrator/plugin-agent-aider''\<rparr>,
      \<lparr>builtin_slot = Workspace, builtin_name = ''worktree'', builtin_pkg = ''@agent-orchestrator/plugin-workspace-worktree''\<rparr>,
      \<lparr>builtin_slot = Workspace, builtin_name = ''clone'', builtin_pkg = ''@agent-orchestrator/plugin-workspace-clone''\<rparr>,
      \<lparr>builtin_slot = Tracker, builtin_name = ''github'', builtin_pkg = ''@agent-orchestrator/plugin-tracker-github''\<rparr>,
      \<lparr>builtin_slot = Tracker, builtin_name = ''linear'', builtin_pkg = ''@agent-orchestrator/plugin-tracker-linear''\<rparr>,
      \<lparr>builtin_slot = SCM, builtin_name = ''github'', builtin_pkg = ''@agent-orchestrator/plugin-scm-github''\<rparr>,
      \<lparr>builtin_slot = Notifier, builtin_name = ''desktop'', builtin_pkg = ''@agent-orchestrator/plugin-notifier-desktop''\<rparr>,
      \<lparr>builtin_slot = Notifier, builtin_name = ''slack'', builtin_pkg = ''@agent-orchestrator/plugin-notifier-slack''\<rparr>,
      \<lparr>builtin_slot = Notifier, builtin_name = ''webhook'', builtin_pkg = ''@agent-orchestrator/plugin-notifier-webhook''\<rparr>,
      \<lparr>builtin_slot = Terminal, builtin_name = ''iterm2'', builtin_pkg = ''@agent-orchestrator/plugin-terminal-iterm2''\<rparr>,
      \<lparr>builtin_slot = Terminal, builtin_name = ''web'', builtin_pkg = ''@agent-orchestrator/plugin-terminal-web''\<rparr>]"

text \<open>
  The field of \<^verbatim>\<open>OrchestratorConfig\<close> that \<^verbatim>\<open>extractPluginConfig\<close> reads; the condition
  \<^verbatim>\<open>config.worktreeDir\<close> holds for a string that is present and not empty.
\<close>

record OrchestratorConfig =
  worktreeDir :: "string option"

definition extractPluginConfig :: "PluginSlot \<Rightarrow> string \<Rightarrow> OrchestratorConfig \<Rightarrow> plugin_config" where
  "extractPluginConfig slot name config =
     (case worktreeDir config of
        None \<Rightarrow> None
      | Some dir \<Rightarrow>
          if slot = Workspace \<and> name = ''worktree'' \<and> dir \<noteq> [] then Some [(''worktreeDir'', JStr dir)]
          else if slot = Workspace \<and> name = ''clone'' \<and> dir \<noteq> [] then Some [(''cloneDir'', JStr dir)]
          else None)"

text \<open>
  What \<^verbatim>\<open>await import(pkg)\<close> gives: it throws when the package is not installed, and a
  module that loads may or may not export a manifest and a function \<^verbatim>\<open>create\<close>.
\<close>

record 'i module_exports =
  export_manifest :: "PluginManifest option"
  export_create :: "(plugin_config \<Rightarrow> js_error + 'i) option"

type_synonym 'i importer = "string \<Rightarrow> js_error + 'i module_exports"

text \<open>
  \<^verbatim>\<open>orchestratorConfig ? extractPluginConfig(builtin.slot, builtin.name, orchestratorConfig) : undefined\<close>
\<close>

definition pluginConfig :: "OrchestratorConfig option \<Rightarrow> builtin \<Rightarrow> plugin_config" where
  "pluginConfig orchestratorConfig b =
     (case orchestratorConfig of
        None \<Rightarrow> None
      | Some config \<Rightarrow> extractPluginConfig (builtin_slot b) (builtin_name b) config)"

text \<open>The body of the \<^verbatim>\<open>try\<close> block of \<^verbatim>\<open>loadBuiltins\<close> for one row of the table.\<close>

definition try_load ::
  "'i importer \<Rightarrow> OrchestratorConfig option \<Rightarrow> builtin \<Rightarrow> 'i PluginMap \<Rightarrow> js_error + 'i PluginMap" where
  "try_load imp orchestratorConfig b plugins =
     (case imp (builtin_pkg b) of
        Inl e \<Rightarrow> Inl e
      | Inr md \<Rightarrow>
          (case export_manifest md of
             None \<Rightarrow> Inr plugins
           | Some m \<Rightarrow>
               (case export_create md of
                  None \<Rightarrow> Inr plugins
                | Some cr \<Rightarrow>
                    register \<lparr>manifest = m, create = cr\<rparr> (pluginConfig orchestratorConfig b) plugins)))"

text \<open>One iteration: the \<^verbatim>\<open>try\<close> block with its empty \<^verbatim>\<open>catch\<close>.\<close>

definition load_builtin ::
  "'i importer \<Rightarrow> OrchestratorConfig option \<Rightarrow> builtin \<Rightarrow> 'i PluginMap \<Rightarrow> js_error + 'i PluginMap" where
  "load_builtin imp orchestratorConfig b plugins =
     (case try_load imp orchestratorConfig b plugins of
        Inl e \<Rightarrow> Inr plugins
      | Inr plugins' \<Rightarrow> Inr plugins')"

text \<open>The \<^verbatim>\<open>for\<close> loop; an iteration that threw would end it.\<close>

fun loadBuiltins_loop ::
  "'i importer \<Rightarrow> OrchestratorConfig option \<Rightarrow> builtin list \<Rightarrow> 'i PluginMap \<Rightarrow> js_error + 'i PluginMap" where
  "loadBuiltins_loop imp orchestratorConfig [] plugins = Inr plugins"
| "loadBuiltins_loop imp orchestratorConfig (b # bs) plugins =
     (case load_builtin imp orchestratorConfig b plugins of
        Inl e \<Rightarrow> Inl e
      | Inr plugins' \<Rightarrow> loadBuiltins_loop imp orchestratorConfig bs plugins')"

definition loadBuiltins ::
  "'i importer \<Rightarrow> OrchestratorConfig option \<Rightarrow> 'i PluginMap \<Rightarrow> js_error + 'i PluginMap" where
  "loadBuiltins imp orchestratorConfig plugins =
     loadBuiltins_loop imp orchestratorConfig BUILTIN_PLUGINS plugins"

text \<open>
  The instance a row of the table ends up registering, if any: its package loads,
  exports a manifest and \<^verbatim>\<open>create\<close>, and \<^verbatim>\<open>create\<close> does not throw.
\<close>

definition loaded_instance :: "'i importer \<Rightarrow> OrchestratorConfig option \<Rightarrow> builtin \<Rightarrow> 'i option" where
  "loaded_instance imp orchestratorConfig b =
     (case imp (builtin_pkg b) of
        Inl e \<Rightarrow> None
      | Inr md \<Rightarrow>
          (case export_manifest md of
             None \<Rightarrow> None
           | Some m \<Rightarrow>
               (case export_create md of
                  None \<Rightarrow> None
                | Some cr \<Rightarrow>
                    (case cr (pluginConfig orchestratorConfig b) of
                       Inl e \<Rightarrow> None
                     | Inr i \<Rightarrow> Some i))))"

text \<open>
  A package keeps to the table when the manifest it exports carries the slot and the
  name of its row.
\<close>

definition keeps_to_table :: "'i importer \<Rightarrow> builtin \<Rightarrow> bool" where
  "keeps_to_table imp b =
     (case imp (builtin_pkg b) of
        Inl e \<Rightarrow> True
      | Inr md \<Rightarrow>
          (case export_manifest md of
             None \<Rightarrow> True
           | Some m \<Rightarrow> manifest_slot m = builtin_slot b \<and> manifest_name m = builtin_name b))"

definition builtin_key :: "builtin \<Rightarrow> PluginSlot \<times> string" where
  "builtin_key b = (builtin_slot b, builtin_name b)"



text \<open>Two plugin modules and an importer that finds only one package, for concrete runs.\<close>

definition tmux_plugin :: "string PluginModule" where
  "tmux_plugin =
     \<lparr>manifest = \<lparr>manifest_name = ''tmux'', manifest_slot = Runtime,
                   manifest_description = ''Runtime plugin: tmux sessions'', manifest_version = ''0.1.0''\<rparr>,
      create = (\<lambda>config. Inr ''tmux-runtime'')\<rparr>"


definition only_tmux_installed :: "string importer" where
  "only_tmux_installed pkg =
     (if pkg = ''@agent-orchestrator/plugin-runtime-tmux''
      then Inr \<lparr>export_manifest = Some (manifest tmux_plugin), export_create = Some (create tmux_plugin)\<rparr>
      else Inl (JsError ''Error'' (Some ''ERR_MODULE_NOT_FOUND'') ''Cannot find package''))"

section \<open>Properties of shellEscape\<close>

lemma posix_single_replace_quotes:
  "posix_single (replace_quotes s @ [quote_char]) = Some s"
proof (induction s)
  case Nil
  show ?case by (simp add: replace_quotes_def)
next
  case (Cons c s)
  have step: "replace_quotes (c # s)
                = (if c = quote_char then [quote_char, backslash_char, quote_char, quote_char]
                   else [c]) @ replace_quotes s"
    by (simp add: replace_quotes_def)
  have neq: "quote_char \<noteq> backslash_char" "backslash_char \<noteq> quote_char" "quote_char \<noteq> newline_char"
    by (simp_all add: quote_char_def backslash_char_def newline_char_def)
  show ?case
  proof (cases "c = quote_char")
    case True
    have "posix_single (replace_quotes (c # s) @ [quote_char])
            = posix_single ([quote_char, backslash_char, quote_char, quote_char]
                            @ replace_quotes s @ [quote_char])"
      unfolding step using True by simp
    also have "\<dots> = map_option ((#) quote_char) (posix_single (replace_quotes s @ [quote_char]))"
      using neq by simp
    finally show ?thesis using True Cons.IH by simp
  next
    case False
    with Cons.IH show ?thesis by (simp add: step)
  qed
qed

text \<open>
  C10. The escaped text starts and ends with a single quote, every quote of the input
  has become quote-backslash-quote-quote, and the shell reads the escaped text back as
  exactly the input: no character of the input is ever seen unquoted.
\<close>

theorem shellEscape_roundtrip:
  "shellEscape s
     = quote_char
       # concat (map (\<lambda>c. if c = quote_char
                          then [quote_char, backslash_char, quote_char, quote_char]
                          else [c]) s)
       @ [quote_char]
   \<and> posix_word (shellEscape s) = Some s"
  by (simp add: shellEscape_def posix_word_def posix_single_replace_quotes)
     (simp add: replace_quotes_def)

section \<open>Properties of the webhook handler\<close>

lemma get_prop_Inl: "get_prop v k = Inl e \<Longrightarrow> nullish v \<and> err_name e = ''TypeError''"
  by (cases v) (auto simp add: nullish_def TypeError_def)

lemma get_prop_field: "\<not> nullish v \<Longrightarrow> get_prop v k = Inr (field v k)"
  by (cases v) (simp_all add: nullish_def field_def)

lemma opt_chain_field: "opt_chain v k = Inr (field v k)"
  by (cases v) (simp_all add: opt_chain_def nullish_def field_def)

lemma opt_chain_not_Inl: "opt_chain v k \<noteq> Inl e"
  by (simp add: opt_chain_field)

lemma normalize_event_Inl:
  "normalize_event hs pl = Inl e \<Longrightarrow> nullish pl \<and> err_name e = ''TypeError''"
  by (auto simp add: normalize_event_def Let_def opt_chain_not_Inl
        split: sum.splits if_splits dest: get_prop_Inl)

lemma normalize_not_invalid: "normalize_event hs pl \<noteq> Inl invalid_token"
  using normalize_event_Inl [of hs pl invalid_token]
  by (auto simp add: invalid_token_def new_Error_def)

lemma normalize_event_value:
  "\<not> nullish pl \<Longrightarrow> normalize_event hs pl =
     (if eventHeader hs = ''Issue Hook'' then
        Inr (Issue (coalesce (field (field pl ''object_attributes'') ''action'') (JStr ''unknown''))
              (field pl ''object_attributes'') (field pl ''project''))
      else if eventHeader hs = ''Merge Request Hook'' then
        Inr (MergeRequest (coalesce (field (field pl ''object_attributes'') ''action'') (JStr ''unknown''))
              (field pl ''object_attributes'') (field pl ''project''))
      else Inr (Unknown pl))"
  by (simp add: normalize_event_def Let_def get_prop_field opt_chain_field)

lemma normalize_event_unknown:
  "eventHeader hs \<noteq> ''Issue Hook'' \<Longrightarrow> eventHeader hs \<noteq> ''Merge Request Hook'' \<Longrightarrow>
   normalize_event hs pl = Inr (Unknown pl)"
  by (simp add: normalize_event_def Let_def)

lemma handleWebhook_cases:
  "snd (handleWebhook digest hs pl secret) = Inl invalid_token
   \<or> snd (handleWebhook digest hs pl secret) = normalize_event hs pl"
  by (simp add: handleWebhook_def Let_def split: option.splits)

lemma handleWebhook_part002_cases:
  "snd (handleWebhook_part002 hs pl secret) = Inl invalid_token
   \<or> snd (handleWebhook_part002 hs pl secret) = normalize_event hs pl"
  by (simp add: handleWebhook_part002_def split: option.splits)

lemma handleWebhook_reject_digest:
  "secret \<noteq> [] \<Longrightarrow>
   (snd (handleWebhook digest hs pl (Some secret)) = Inl invalid_token)
     = (digest (headerStr hs) \<noteq> digest secret)"
  by (auto simp add: handleWebhook_def Let_def timingSafeEqual_def normalize_not_invalid)

lemma handleWebhook_part002_reject:
  "secret \<noteq> [] \<Longrightarrow>
   (snd (handleWebhook_part002 hs pl (Some secret)) = Inl invalid_token)
     = (tokenHeader hs \<noteq> Some secret)"
  by (auto simp add: handleWebhook_part002_def normalize_not_invalid)

lemma no_secret_no_reject:
  "secret = None \<or> secret = Some [] \<Longrightarrow>
   snd (handleWebhook digest hs pl secret) \<noteq> Inl invalid_token
   \<and> snd (handleWebhook_part002 hs pl secret) \<noteq> Inl invalid_token"
  by (auto simp add: handleWebhook_def handleWebhook_part002_def normalize_not_invalid)

text \<open>
  The handler of webhookHandler.ts with a configured secret: whatever the headers are,
  it computes the digest of the header string, the digest of the secret, and compares
  the two digests with \<^verbatim>\<open>timingSafeEqual\<close>; a missing header is treated exactly as an
  empty one; and when the digest function returns 32 bytes, two requests cannot be
  told apart by the shape of these operations.
\<close>

theorem handleWebhook_same_operations:
  assumes "secret \<noteq> []"
  shows "fst (handleWebhook digest hs pl (Some secret))
           = [Sha256Digest (headerStr hs), Sha256Digest secret,
              TimingSafeEqual (digest (headerStr hs)) (digest secret)]
       \<and> (tokenHeader hs = None \<longrightarrow>
            handleWebhook digest hs pl (Some secret)
              = handleWebhook digest (hs(''x-gitlab-token'' \<mapsto> [])) pl (Some secret))
       \<and> ((\<forall>s. length (digest s) = 32) \<longrightarrow>
            map shape_of (fst (handleWebhook digest hs pl (Some secret)))
              = [DigestCall, DigestCall, ConstantTimeCompare 32 32]
            \<and> map shape_of (fst (handleWebhook digest hs pl (Some secret)))
              = map shape_of (fst (handleWebhook digest hs' pl' (Some secret))))"
proof -
  have ops: "\<And>h p. fst (handleWebhook digest h p (Some secret))
           = [Sha256Digest (headerStr h), Sha256Digest secret,
              TimingSafeEqual (digest (headerStr h)) (digest secret)]"
    using assms by (simp add: handleWebhook_def Let_def)
  have missing: "handleWebhook digest hs pl (Some secret)
              = handleWebhook digest (hs(''x-gitlab-token'' \<mapsto> [])) pl (Some secret)"
    if "tokenHeader hs = None"
  proof -
    have h1: "headerStr (hs(''x-gitlab-token'' \<mapsto> [])) = headerStr hs"
      using that by (simp add: headerStr_def tokenHeader_def)
    have "eventHeader (hs(''x-gitlab-token'' \<mapsto> [])) = eventHeader hs"
      by (simp add: eventHeader_def split: option.splits)
    then have h2: "normalize_event (hs(''x-gitlab-token'' \<mapsto> [])) pl = normalize_event hs pl"
      by (simp add: normalize_event_def)
    show ?thesis
      unfolding handleWebhook_def h1 h2 by (rule refl)
  qed
  show ?thesis
    using missing by (simp add: ops)
qed

theorem handleWebhook_same_operations_witness:
  "fst (handleWebhook pad32 Map.empty JNull (Some ''s3cret''))
     = [Sha256Digest [], Sha256Digest ''s3cret'', TimingSafeEqual (pad32 []) (pad32 ''s3cret'')]
   \<and> handleWebhook pad32 Map.empty JNull (Some ''s3cret'')
     = handleWebhook pad32 [''x-gitlab-token'' \<mapsto> []] JNull (Some ''s3cret'')
   \<and> map shape_of (fst (handleWebhook pad32 Map.empty JNull (Some ''s3cret'')))
     = map shape_of (fst (handleWebhook pad32 [''x-gitlab-token'' \<mapsto> ''a-much-longer-token-value''] JNull
                            (Some ''s3cret'')))"
proof -
  have ne: "''s3cret'' \<noteq> []" by simp
  have len: "\<forall>s. length (pad32 s) = 32" by (simp add: pad32_def min_def)
  have none: "tokenHeader Map.empty = None" by (simp add: tokenHeader_def)
  have hdr: "headerStr Map.empty = []" by (simp add: headerStr_def tokenHeader_def)
  note inst = handleWebhook_same_operations [OF ne, where digest = pad32 and hs = "Map.empty"
      and pl = JNull and hs' = "[''x-gitlab-token'' \<mapsto> ''a-much-longer-token-value'']"
      and pl' = JNull]
  have a: "fst (handleWebhook pad32 Map.empty JNull (Some ''s3cret''))
     = [Sha256Digest [], Sha256Digest ''s3cret'', TimingSafeEqual (pad32 []) (pad32 ''s3cret'')]"
    using inst hdr by simp
  have b: "handleWebhook pad32 Map.empty JNull (Some ''s3cret'')
     = handleWebhook pad32 [''x-gitlab-token'' \<mapsto> []] JNull (Some ''s3cret'')"
    using inst none by blast
  have c: "map shape_of (fst (handleWebhook pad32 Map.empty JNull (Some ''s3cret'')))
     = map shape_of (fst (handleWebhook pad32 [''x-gitlab-token'' \<mapsto> ''a-much-longer-token-value''] JNull
                            (Some ''s3cret'')))"
    using inst len by blast
  from a b c show ?thesis by blast
qed

text \<open>
  C1. The earlier handler (src/unnamed/part_002) does none of this: with a configured secret
  it performs one raw \<^verbatim>\<open>!==\<close> between the header value and the secret, on the
  undefined value itself when the header is missing, and computes no digest and calls
  no constant-time comparison.
\<close>

theorem handleWebhook_part002_raw_comparison:
  "handleWebhook_part002 [''x-gitlab-token'' \<mapsto> ''wrong''] JNull (Some ''s3cret'')
     = ([StrictNotEqual (Some ''wrong'') ''s3cret''], Inl invalid_token)
   \<and> handleWebhook_part002 Map.empty JNull (Some ''s3cret'')
     = ([StrictNotEqual None ''s3cret''], Inl invalid_token)
   \<and> map shape_of (fst (handleWebhook_part002 Map.empty JNull (Some ''s3cret''))) = [RawCompare]"
  by (simp add: handleWebhook_part002_def tokenHeader_def)

text \<open>
  Two different strings with the same UTF-8 encoding: the unpaired surrogates
  \<^verbatim>\<open>"\ud801"\<close> and \<^verbatim>\<open>"\ud800"\<close> are both encoded as EF BF BD, so their digests are equal
  whatever the hash function is, SHA-256 included, and the handler of webhookHandler.ts
  accepts the first as a token for the second.
\<close>

lemma unpaired_surrogates_collide:
  "node_digest sha [CHR 0xED, CHR 0xA0, CHR 0x81] = node_digest sha [CHR 0xED, CHR 0xA0, CHR 0x80]"
  by (simp add: node_digest_def)

lemma handleWebhook_accepts_collision:
  "snd (handleWebhook (node_digest sha) [''x-gitlab-token'' \<mapsto> [CHR 0xED, CHR 0xA0, CHR 0x81]]
          (JObj []) (Some [CHR 0xED, CHR 0xA0, CHR 0x80]))
     = Inr (Unknown (JObj []))"
  by (simp add: handleWebhook_def Let_def timingSafeEqual_def headerStr_def tokenHeader_def
        unpaired_surrogates_collide normalize_event_def eventHeader_def)

text \<open>
  C3. For every headers map, payload and non-empty secret:

    \<^item> the earlier handler (src/unnamed/part_002) throws the invalid-token error exactly
      when the token header, read under \<^verbatim>\<open>x-gitlab-token\<close> and, if that is absent, under
      \<^verbatim>\<open>X-Gitlab-Token\<close>, is missing or differs from the secret;
    \<^item> the handler of webhookHandler.ts throws it exactly when the digest of that header
      value, the empty string when it is missing, differs from the digest of the secret,
      for every digest function, so for \<open>node_digest\<close> of SHA-256;
    \<^item> a header equal to the secret is accepted by both, and the result is then that of
      the normalisation of the event;
    \<^item> either handler throws at all exactly when it throws the invalid-token error or
      the normalisation throws, and the normalisation never throws the invalid-token
      error;
    \<^item> with no secret, absent or empty, both handlers perform no validation and return
      what the normalisation returns.
\<close>

theorem handleWebhook_invalid_token_iff:
  assumes "secret \<noteq> []"
  shows "((snd (handleWebhook_part002 hs pl (Some secret)) = Inl invalid_token)
            = (case hs ''x-gitlab-token'' of
                 Some v \<Rightarrow> v \<noteq> secret
               | None \<Rightarrow> (case hs ''X-Gitlab-Token'' of Some v \<Rightarrow> v \<noteq> secret | None \<Rightarrow> True)))
       \<and> ((snd (handleWebhook digest hs pl (Some secret)) = Inl invalid_token)
            = (digest (case hs ''x-gitlab-token'' of
                         Some v \<Rightarrow> v
                       | None \<Rightarrow> (case hs ''X-Gitlab-Token'' of Some v \<Rightarrow> v | None \<Rightarrow> []))
               \<noteq> digest secret))
       \<and> (hs ''x-gitlab-token'' = Some secret
            \<or> hs ''x-gitlab-token'' = None \<and> hs ''X-Gitlab-Token'' = Some secret
          \<longrightarrow> snd (handleWebhook digest hs pl (Some secret)) = normalize_event hs pl
              \<and> snd (handleWebhook_part002 hs pl (Some secret)) = normalize_event hs pl)
       \<and> (isl (snd (handleWebhook_part002 hs pl (Some secret)))
            = (snd (handleWebhook_part002 hs pl (Some secret)) = Inl invalid_token
               \<or> isl (normalize_event hs pl)))
       \<and> (isl (snd (handleWebhook digest hs pl (Some secret)))
            = (snd (handleWebhook digest hs pl (Some secret)) = Inl invalid_token
               \<or> isl (normalize_event hs pl)))
       \<and> normalize_event hs pl \<noteq> Inl invalid_token
       \<and> handleWebhook digest hs pl None = ([], normalize_event hs pl)
       \<and> handleWebhook digest hs pl (Some []) = ([], normalize_event hs pl)
       \<and> handleWebhook_part002 hs pl None = ([], normalize_event hs pl)
       \<and> handleWebhook_part002 hs pl (Some []) = ([], normalize_event hs pl)"
proof -
  have raw: "(snd (handleWebhook_part002 hs pl (Some secret)) = Inl invalid_token)
            = (case hs ''x-gitlab-token'' of
                 Some v \<Rightarrow> v \<noteq> secret
               | None \<Rightarrow> (case hs ''X-Gitlab-Token'' of Some v \<Rightarrow> v \<noteq> secret | None \<Rightarrow> True))"
    using assms
    by (simp add: handleWebhook_part002_reject tokenHeader_def split: option.splits)
  have hashed: "(snd (handleWebhook digest hs pl (Some secret)) = Inl invalid_token)
            = (digest (case hs ''x-gitlab-token'' of
                         Some v \<Rightarrow> v
                       | None \<Rightarrow> (case hs ''X-Gitlab-Token'' of Some v \<Rightarrow> v | None \<Rightarrow> []))
               \<noteq> digest secret)"
    using assms
    by (simp add: handleWebhook_reject_digest headerStr_def tokenHeader_def split: option.splits)
  have not_invalid: "normalize_event hs pl \<noteq> Inl invalid_token"
    by (rule normalize_not_invalid)
  have right: "snd (handleWebhook digest hs pl (Some secret)) = normalize_event hs pl
              \<and> snd (handleWebhook_part002 hs pl (Some secret)) = normalize_event hs pl"
    if "hs ''x-gitlab-token'' = Some secret
            \<or> hs ''x-gitlab-token'' = None \<and> hs ''X-Gitlab-Token'' = Some secret"
  proof -
    have "snd (handleWebhook digest hs pl (Some secret)) \<noteq> Inl invalid_token"
      using that by (auto simp add: hashed)
    moreover have "snd (handleWebhook_part002 hs pl (Some secret)) \<noteq> Inl invalid_token"
      using that by (auto simp add: raw)
    ultimately show ?thesis
      using handleWebhook_cases [of digest hs pl "Some secret"]
        handleWebhook_part002_cases [of hs pl "Some secret"]
      by blast
  qed
  have throws_raw: "isl (snd (handleWebhook_part002 hs pl (Some secret)))
            = (snd (handleWebhook_part002 hs pl (Some secret)) = Inl invalid_token
               \<or> isl (normalize_event hs pl))"
    using handleWebhook_part002_cases [of hs pl "Some secret"] not_invalid by auto
  have throws_hashed: "isl (snd (handleWebhook digest hs pl (Some secret)))
            = (snd (handleWebhook digest hs pl (Some secret)) = Inl invalid_token
               \<or> isl (normalize_event hs pl))"
    using handleWebhook_cases [of digest hs pl "Some secret"] not_invalid by auto
  have none1: "handleWebhook digest hs pl None = ([], normalize_event hs pl)"
    by (simp add: handleWebhook_def)
  have none2: "handleWebhook digest hs pl (Some []) = ([], normalize_event hs pl)"
    by (simp add: handleWebhook_def)
  have none3: "handleWebhook_part002 hs pl None = ([], normalize_event hs pl)"
    by (simp add: handleWebhook_part002_def)
  have none4: "handleWebhook_part002 hs pl (Some []) = ([], normalize_event hs pl)"
    by (simp add: handleWebhook_part002_def)
  from raw hashed right throws_raw throws_hashed not_invalid none1 none2 none3 none4
  show ?thesis by blast
qed

theorem handleWebhook_invalid_token_iff_witness:
  "snd (handleWebhook pad32 [''x-gitlab-token'' \<mapsto> ''s3cret''] (JObj []) (Some ''s3cret''))
     = Inr (Unknown (JObj []))
   \<and> snd (handleWebhook_part002 [''x-gitlab-token'' \<mapsto> ''s3cret''] (JObj []) (Some ''s3cret''))
     = Inr (Unknown (JObj []))
   \<and> snd (handleWebhook pad32 [''X-Gitlab-Token'' \<mapsto> ''s3cret''] (JObj []) (Some ''s3cret''))
     \<noteq> Inl invalid_token
   \<and> snd (handleWebhook_part002 [''X-Gitlab-Token'' \<mapsto> ''s3cret''] (JObj []) (Some ''s3cret''))
     \<noteq> Inl invalid_token
   \<and> snd (handleWebhook pad32 [''X-Gitlab-Token'' \<mapsto> ''wrong''] (JObj []) (Some ''s3cret''))
     = Inl invalid_token
   \<and> snd (handleWebhook_part002 [''X-Gitlab-Token'' \<mapsto> ''wrong''] (JObj []) (Some ''s3cret''))
     = Inl invalid_token
   \<and> snd (handleWebhook pad32 Map.empty (JObj []) (Some ''s3cret'')) = Inl invalid_token
   \<and> snd (handleWebhook_part002 Map.empty (JObj []) (Some ''s3cret'')) = Inl invalid_token
   \<and> snd (handleWebhook pad32 [''x-gitlab-token'' \<mapsto> ''wrong'', ''X-Gitlab-Token'' \<mapsto> ''s3cret'']
             (JObj []) (Some ''s3cret''))
     = Inl invalid_token
   \<and> snd (handleWebhook_part002 [''x-gitlab-token'' \<mapsto> ''wrong'', ''X-Gitlab-Token'' \<mapsto> ''s3cret'']
             (JObj []) (Some ''s3cret''))
     = Inl invalid_token
   \<and> snd (handleWebhook pad32 [''X-Gitlab-Token'' \<mapsto> ''wrong''] (JObj []) None) \<noteq> Inl invalid_token"
proof -
  have ne: "''s3cret'' \<noteq> []" by simp
  note iff = handleWebhook_invalid_token_iff [OF ne, where pl = "JObj []" and digest = pad32]
  have unknown: "normalize_event hs (JObj []) = Inr (Unknown (JObj []))"
    if "eventHeader hs = []" for hs
    using that by (simp add: normalize_event_def)
  have lower_ok: "snd (handleWebhook pad32 [''x-gitlab-token'' \<mapsto> ''s3cret''] (JObj []) (Some ''s3cret''))
                    \<noteq> Inl invalid_token
                  \<and> snd (handleWebhook_part002 [''x-gitlab-token'' \<mapsto> ''s3cret''] (JObj []) (Some ''s3cret''))
                    \<noteq> Inl invalid_token"
    using iff [where hs = "[''x-gitlab-token'' \<mapsto> ''s3cret'']"] by simp
  have ev: "eventHeader [''x-gitlab-token'' \<mapsto> ''s3cret''] = []"
    by (simp add: eventHeader_def)
  have a: "snd (handleWebhook pad32 [''x-gitlab-token'' \<mapsto> ''s3cret''] (JObj []) (Some ''s3cret''))
     = Inr (Unknown (JObj []))"
    using lower_ok handleWebhook_cases [of pad32 "[''x-gitlab-token'' \<mapsto> ''s3cret'']" "JObj []" "Some ''s3cret''"]
    by (simp add: unknown [OF ev])
  have b: "snd (handleWebhook_part002 [''x-gitlab-token'' \<mapsto> ''s3cret''] (JObj []) (Some ''s3cret''))
     = Inr (Unknown (JObj []))"
    using lower_ok handleWebhook_part002_cases [of "[''x-gitlab-token'' \<mapsto> ''s3cret'']" "JObj []" "Some ''s3cret''"]
    by (simp add: unknown [OF ev])
  have c: "snd (handleWebhook pad32 [''X-Gitlab-Token'' \<mapsto> ''s3cret''] (JObj []) (Some ''s3cret''))
     \<noteq> Inl invalid_token
   \<and> snd (handleWebhook_part002 [''X-Gitlab-Token'' \<mapsto> ''s3cret''] (JObj []) (Some ''s3cret''))
     \<noteq> Inl invalid_token"
    using iff [where hs = "[''X-Gitlab-Token'' \<mapsto> ''s3cret'']"] by simp
  have d: "snd (handleWebhook pad32 [''X-Gitlab-Token'' \<mapsto> ''wrong''] (JObj []) (Some ''s3cret''))
     = Inl invalid_token
   \<and> snd (handleWebhook_part002 [''X-Gitlab-Token'' \<mapsto> ''wrong''] (JObj []) (Some ''s3cret''))
     = Inl invalid_token"
    using iff [where hs = "[''X-Gitlab-Token'' \<mapsto> ''wrong'']"] by (simp add: pad32_def)
  have empty_differs: "pad32 [] \<noteq> pad32 ''s3cret''"
    by (simp add: pad32_def numeral_eq_Suc)
  have e: "snd (handleWebhook pad32 Map.empty (JObj []) (Some ''s3cret'')) = Inl invalid_token
   \<and> snd (handleWebhook_part002 Map.empty (JObj []) (Some ''s3cret'')) = Inl invalid_token"
    using iff [where hs = "Map.empty"] empty_differs by simp
  have f: "snd (handleWebhook pad32 [''x-gitlab-token'' \<mapsto> ''wrong'', ''X-Gitlab-Token'' \<mapsto> ''s3cret'']
             (JObj []) (Some ''s3cret''))
     = Inl invalid_token
   \<and> snd (handleWebhook_part002 [''x-gitlab-token'' \<mapsto> ''wrong'', ''X-Gitlab-Token'' \<mapsto> ''s3cret'']
             (JObj []) (Some ''s3cret''))
     = Inl invalid_token"
    using iff [where hs = "[''x-gitlab-token'' \<mapsto> ''wrong'', ''X-Gitlab-Token'' \<mapsto> ''s3cret'']"]
    by (simp add: pad32_def)
  have g: "snd (handleWebhook pad32 [''X-Gitlab-Token'' \<mapsto> ''wrong''] (JObj []) None) \<noteq> Inl invalid_token"
    using iff [where hs = "[''X-Gitlab-Token'' \<mapsto> ''wrong'']"] by simp
  from a b c d e f g show ?thesis by blast
qed

text \<open>
  The statement "the handler throws if and only if the token header is missing or
  differs from the secret" fails in both directions. The header \<^verbatim>\<open>"\ud801"\<close> differs from
  the secret \<^verbatim>\<open>"\ud800"\<close>, and the handler of webhookHandler.ts returns an event where
  the earlier handler throws. And with a header equal to the secret, the event header
  "Issue Hook" and the payload \<^verbatim>\<open>null\<close>, both handlers throw a TypeError.
\<close>

theorem handleWebhook_rejection_counterexample:
  "[CHR 0xED, CHR 0xA0, CHR 0x81] \<noteq> [CHR 0xED, CHR 0xA0, CHR 0x80]
   \<and> snd (handleWebhook (node_digest pad32) [''x-gitlab-token'' \<mapsto> [CHR 0xED, CHR 0xA0, CHR 0x81]]
            (JObj []) (Some [CHR 0xED, CHR 0xA0, CHR 0x80]))
       = Inr (Unknown (JObj []))
   \<and> snd (handleWebhook_part002 [''x-gitlab-token'' \<mapsto> [CHR 0xED, CHR 0xA0, CHR 0x81]]
            (JObj []) (Some [CHR 0xED, CHR 0xA0, CHR 0x80]))
       = Inl invalid_token
   \<and> snd (handleWebhook (node_digest pad32)
            [''x-gitlab-token'' \<mapsto> ''s3cret'', ''x-gitlab-event'' \<mapsto> ''Issue Hook''] JNull (Some ''s3cret''))
       = Inl (TypeError (''Cannot read properties of null (reading ''
                         @ [quote_char] @ ''object_attributes'' @ [quote_char] @ '')''))
   \<and> snd (handleWebhook_part002
            [''x-gitlab-token'' \<mapsto> ''s3cret'', ''x-gitlab-event'' \<mapsto> ''Issue Hook''] JNull (Some ''s3cret''))
       = Inl (TypeError (''Cannot read properties of null (reading ''
                         @ [quote_char] @ ''object_attributes'' @ [quote_char] @ '')''))"
proof -
  have collide: "snd (handleWebhook (node_digest pad32) [''x-gitlab-token'' \<mapsto> [CHR 0xED, CHR 0xA0, CHR 0x81]]
            (JObj []) (Some [CHR 0xED, CHR 0xA0, CHR 0x80]))
       = Inr (Unknown (JObj []))"
    by (rule handleWebhook_accepts_collision)
  have raw: "snd (handleWebhook_part002 [''x-gitlab-token'' \<mapsto> [CHR 0xED, CHR 0xA0, CHR 0x81]]
            (JObj []) (Some [CHR 0xED, CHR 0xA0, CHR 0x80]))
       = Inl invalid_token"
    by (simp add: handleWebhook_part002_def tokenHeader_def)
  have null1: "snd (handleWebhook (node_digest pad32)
            [''x-gitlab-token'' \<mapsto> ''s3cret'', ''x-gitlab-event'' \<mapsto> ''Issue Hook''] JNull (Some ''s3cret''))
       = Inl (TypeError (''Cannot read properties of null (reading ''
                         @ [quote_char] @ ''object_attributes'' @ [quote_char] @ '')''))"
    by (simp add: handleWebhook_def Let_def timingSafeEqual_def headerStr_def tokenHeader_def
          normalize_event_def eventHeader_def)
  have null2: "snd (handleWebhook_part002
            [''x-gitlab-token'' \<mapsto> ''s3cret'', ''x-gitlab-event'' \<mapsto> ''Issue Hook''] JNull (Some ''s3cret''))
       = Inl (TypeError (''Cannot read properties of null (reading ''
                         @ [quote_char] @ ''object_attributes'' @ [quote_char] @ '')''))"
    by (simp add: handleWebhook_part002_def tokenHeader_def normalize_event_def eventHeader_def)
  from collide raw null1 null2 show ?thesis by simp
qed

text \<open>
  C5. A request passes validation when the handler does not throw the invalid-token
  error. For such a request whose payload is neither \<^verbatim>\<open>null\<close> nor \<^verbatim>\<open>undefined\<close>, both
  handlers return an issue event for the event header "Issue Hook", a merge-request
  event for "Merge Request Hook" (the action read from
  \<^verbatim>\<open>payload.object_attributes.action\<close>, "unknown" when it is nullish), and otherwise an
  unknown event holding the payload. For any other header value the unknown event is
  returned whatever the payload is.
\<close>

theorem handleWebhook_event_shape:
  assumes "snd (handleWebhook digest hs pl secret) \<noteq> Inl invalid_token"
    and "snd (handleWebhook_part002 hs pl secret') \<noteq> Inl invalid_token"
  shows "(\<not> nullish pl \<or> (eventHeader hs \<noteq> ''Issue Hook'' \<and> eventHeader hs \<noteq> ''Merge Request Hook'')) \<longrightarrow>
         snd (handleWebhook digest hs pl secret) =
           (if eventHeader hs = ''Issue Hook'' then
              Inr (Issue (coalesce (field (field pl ''object_attributes'') ''action'') (JStr ''unknown''))
                    (field pl ''object_attributes'') (field pl ''project''))
            else if eventHeader hs = ''Merge Request Hook'' then
              Inr (MergeRequest (coalesce (field (field pl ''object_attributes'') ''action'') (JStr ''unknown''))
                    (field pl ''object_attributes'') (field pl ''project''))
            else Inr (Unknown pl))
         \<and> snd (handleWebhook_part002 hs pl secret') = snd (handleWebhook digest hs pl secret)"
proof -
  have a: "snd (handleWebhook digest hs pl secret) = normalize_event hs pl"
    using assms(1) handleWebhook_cases [of digest hs pl secret] by simp
  have b: "snd (handleWebhook_part002 hs pl secret') = normalize_event hs pl"
    using assms(2) handleWebhook_part002_cases [of hs pl secret'] by simp
  show ?thesis
    using normalize_event_value [of pl hs] normalize_event_unknown [of hs pl]
    by (auto simp add: a b)
qed

theorem handleWebhook_event_shape_witness:
  "snd (handleWebhook pad32 [''X-Gitlab-Event'' \<mapsto> ''Issue Hook'', ''x-gitlab-token'' \<mapsto> ''s3cret'']
          (JObj [(''object_attributes'', JObj [(''iid'', JNum 7)]), (''project'', JObj [(''id'', JNum 1)])])
          (Some ''s3cret''))
     = Inr (Issue (JStr ''unknown'') (JObj [(''iid'', JNum 7)]) (JObj [(''id'', JNum 1)]))"
proof -
  let ?hs = "[''X-Gitlab-Event'' \<mapsto> ''Issue Hook'', ''x-gitlab-token'' \<mapsto> ''s3cret'']"
  let ?pl = "JObj [(''object_attributes'', JObj [(''iid'', JNum 7)]), (''project'', JObj [(''id'', JNum 1)])]"
  have tok: "tokenHeader ?hs = Some ''s3cret''"
    by (simp add: tokenHeader_def)
  have p1: "snd (handleWebhook pad32 ?hs ?pl (Some ''s3cret'')) \<noteq> Inl invalid_token"
    by (simp add: handleWebhook_reject_digest headerStr_def tok)
  have p2: "snd (handleWebhook_part002 ?hs ?pl (Some ''s3cret'')) \<noteq> Inl invalid_token"
    by (simp add: handleWebhook_part002_reject tok)
  have ev: "eventHeader ?hs = ''Issue Hook''"
    by (simp add: eventHeader_def)
  from handleWebhook_event_shape [OF p1 p2] ev
  show ?thesis
    by (simp add: nullish_def field_def coalesce_def)
qed

text \<open>
  Without the restriction on the payload the statement fails: with the event header
  "Issue Hook" and the payload \<^verbatim>\<open>null\<close> (no secret configured, so validation passes),
  both handlers throw a TypeError instead of returning an event.
\<close>

theorem handleWebhook_null_payload_throws:
  "snd (handleWebhook pad32 [''x-gitlab-event'' \<mapsto> ''Issue Hook''] JNull None)
     = Inl (TypeError (''Cannot read properties of null (reading ''
                       @ [quote_char] @ ''object_attributes'' @ [quote_char] @ '')''))
   \<and> snd (handleWebhook_part002 [''x-gitlab-event'' \<mapsto> ''Issue Hook''] JNull None)
     = Inl (TypeError (''Cannot read properties of null (reading ''
                       @ [quote_char] @ ''object_attributes'' @ [quote_char] @ '')''))"
  by (simp add: handleWebhook_def handleWebhook_part002_def normalize_event_def eventHeader_def)

section \<open>Properties of the GitLab client\<close>

lemma api_error_not_retryable:
  "gitlabClient_catch c e a (api_error res) = Throw (api_error res)"
  "client_catch c e a (api_error res) = Throw (api_error res)"
  by (simp_all add: gitlabClient_catch_def client_catch_def api_error_def new_Error_def)

lemma attempt_server_error:
  assumes "server_error (net e a)"
  shows "gitlabClient_attempt c e a =
           (if int a < maxRetries c then Continue (backoff a + jitter e a)
            else Throw (api_error (the (the_response (net e a)))))"
    and "client_attempt c e a =
           (if int a < maxRetries c then Continue (backoff a + jitter e a)
            else Throw (api_error (the (the_response (net e a)))))"
  using assms
  by (cases "net e a"; auto simp add: gitlabClient_attempt_def client_attempt_def on_response_def
        api_error_not_retryable)+

lemma race_server_error: "server_error outcome \<Longrightarrow> race outcome a st = st"
  by (cases outcome) (simp_all add: race_def)

lemma retry_sleeps_Suc:
  "retry_sleeps e a (Suc n) = (backoff (a + 1) + jitter e (a + 1)) # retry_sleeps e (a + 1) n"
proof -
  have "[Suc a ..< Suc (a + Suc n)] = Suc a # [Suc (Suc a) ..< Suc (Suc a + n)]"
    by (subst upt_conv_Cons) simp_all
  then show ?thesis by (simp add: retry_sleeps_def)
qed

lemma gitlabClient_loop_retry:
  assumes "server_error (net e (a + 1))" and "int (a + 1) < maxRetries c"
  shows "gitlabClient_loop c e \<lparr>attempt = a, sleeps = sl, pending = []\<rparr> =
           gitlabClient_loop c e
             \<lparr>attempt = a + 1, sleeps = sl @ [backoff (a + 1) + jitter e (a + 1)], pending = []\<rparr>"
  using assms
  by (subst gitlabClient_loop.simps)
     (simp add: Let_def attempt_server_error race_server_error arm_timer_def remove_timer_def)

lemma gitlabClient_loop_retries:
  assumes "\<forall>k. a < k \<and> k \<le> a + n \<longrightarrow> server_error (net e k)"
    and "int (a + n) < maxRetries c"
  shows "gitlabClient_loop c e \<lparr>attempt = a, sleeps = sl, pending = []\<rparr> =
           gitlabClient_loop c e
             \<lparr>attempt = a + n, sleeps = sl @ retry_sleeps e a n, pending = []\<rparr>"
  using assms
proof (induction n arbitrary: a sl)
  case 0
  then show ?case by (simp add: retry_sleeps_def)
next
  case (Suc n)
  have "gitlabClient_loop c e \<lparr>attempt = a, sleeps = sl, pending = []\<rparr>
          = gitlabClient_loop c e
              \<lparr>attempt = a + 1, sleeps = sl @ [backoff (a + 1) + jitter e (a + 1)], pending = []\<rparr>"
    using Suc.prems by (intro gitlabClient_loop_retry) auto
  also have "\<dots> = gitlabClient_loop c e
       \<lparr>attempt = a + 1 + n,
        sleeps = (sl @ [backoff (a + 1) + jitter e (a + 1)]) @ retry_sleeps e (a + 1) n,
        pending = []\<rparr>"
    using Suc.prems by (intro Suc.IH) auto
  finally show ?case by (simp add: retry_sleeps_Suc)
qed

lemma client_loop_retry:
  assumes "server_error (net e (a + 1))" and "int (a + 1) < maxRetries c"
  shows "client_loop c e \<lparr>attempt = a, sleeps = sl, pending = pd\<rparr> =
           client_loop c e
             \<lparr>attempt = a + 1, sleeps = sl @ [backoff (a + 1) + jitter e (a + 1)],
              pending = pd @ [(a + 1, timeoutMs c)]\<rparr>"
  using assms
  by (subst client_loop.simps)
     (simp add: Let_def attempt_server_error race_server_error arm_timer_def)

lemma armed_timers_Suc:
  "armed_timers c a (Suc n) = (a + 1, timeoutMs c) # armed_timers c (a + 1) n"
proof -
  have "[Suc a ..< Suc (a + Suc n)] = Suc a # [Suc (Suc a) ..< Suc (Suc a + n)]"
    by (subst upt_conv_Cons) simp_all
  then show ?thesis by (simp add: armed_timers_def)
qed

lemma client_loop_retries:
  assumes "\<forall>k. a < k \<and> k \<le> a + n \<longrightarrow> server_error (net e k)"
    and "int (a + n) < maxRetries c"
  shows "client_loop c e \<lparr>attempt = a, sleeps = sl, pending = pd\<rparr> =
           client_loop c e
             \<lparr>attempt = a + n, sleeps = sl @ retry_sleeps e a n, pending = pd @ armed_timers c a n\<rparr>"
  using assms
proof (induction n arbitrary: a sl pd)
  case 0
  then show ?case by (simp add: retry_sleeps_def armed_timers_def)
next
  case (Suc n)
  have "client_loop c e \<lparr>attempt = a, sleeps = sl, pending = pd\<rparr>
          = client_loop c e
              \<lparr>attempt = a + 1, sleeps = sl @ [backoff (a + 1) + jitter e (a + 1)],
               pending = pd @ [(a + 1, timeoutMs c)]\<rparr>"
    using Suc.prems by (intro client_loop_retry) auto
  also have "\<dots> = client_loop c e
       \<lparr>attempt = a + 1 + n,
        sleeps = (sl @ [backoff (a + 1) + jitter e (a + 1)]) @ retry_sleeps e (a + 1) n,
        pending = (pd @ [(a + 1, timeoutMs c)]) @ armed_timers c (a + 1) n\<rparr>"
    using Suc.prems by (intro Suc.IH) auto
  finally show ?case by (simp add: retry_sleeps_Suc armed_timers_Suc)
qed

lemma success_attempt:
  assumes "net e a = Responded res" and "200 \<le> status res" and "status res < 300"
    and "bodyText res = [] \<and> v = JUndefined \<or> bodyText res \<noteq> [] \<and> parse e (bodyText res) = Some v"
  shows "gitlabClient_attempt c e a = Return v" and "client_attempt c e a = Return v"
  using assms
  by (auto simp add: gitlabClient_attempt_def client_attempt_def on_response_def)

lemma gitlabClient_loop_success:
  assumes "net e (a + 1) = Responded res" and "200 \<le> status res" and "status res < 300"
    and "bodyText res = [] \<and> v = JUndefined \<or> bodyText res \<noteq> [] \<and> parse e (bodyText res) = Some v"
  shows "gitlabClient_loop c e \<lparr>attempt = a, sleeps = sl, pending = []\<rparr>
           = (Inr v, \<lparr>attempt = a + 1, sleeps = sl, pending = []\<rparr>)"
  using assms(1) success_attempt(1) [OF assms, of c]
  by (subst gitlabClient_loop.simps)
     (simp add: Let_def race_def arm_timer_def remove_timer_def)

lemma client_loop_success:
  assumes "net e (a + 1) = Responded res" and "200 \<le> status res" and "status res < 300"
    and "bodyText res = [] \<and> v = JUndefined \<or> bodyText res \<noteq> [] \<and> parse e (bodyText res) = Some v"
  shows "client_loop c e \<lparr>attempt = a, sleeps = sl, pending = pd\<rparr>
           = (Inr v, \<lparr>attempt = a + 1, sleeps = sl, pending = pd @ [(a + 1, timeoutMs c)]\<rparr>)"
  using assms(1) success_attempt(2) [OF assms, of c]
  by (subst client_loop.simps)
     (simp add: Let_def race_def arm_timer_def)

lemma gitlabClient_loop_exhausted:
  assumes "net e (a + 1) = Responded res" and "server_error (Responded res)"
    and "\<not> int (a + 1) < maxRetries c"
  shows "gitlabClient_loop c e \<lparr>attempt = a, sleeps = sl, pending = []\<rparr>
           = (Inl (api_error res), \<lparr>attempt = a + 1, sleeps = sl, pending = []\<rparr>)"
proof -
  have "server_error (net e (a + 1))" using assms by simp
  from attempt_server_error(1) [OF this, of c] assms
  show ?thesis
    by (subst gitlabClient_loop.simps)
       (simp add: Let_def race_def arm_timer_def remove_timer_def)
qed

lemma client_loop_exhausted:
  assumes "net e (a + 1) = Responded res" and "server_error (Responded res)"
    and "\<not> int (a + 1) < maxRetries c"
  shows "client_loop c e \<lparr>attempt = a, sleeps = sl, pending = pd\<rparr>
           = (Inl (api_error res), \<lparr>attempt = a + 1, sleeps = sl, pending = pd @ [(a + 1, timeoutMs c)]\<rparr>)"
proof -
  have "server_error (net e (a + 1))" using assms by simp
  from attempt_server_error(2) [OF this, of c] assms
  show ?thesis
    by (subst client_loop.simps)
       (simp add: Let_def race_def arm_timer_def)
qed

lemma backoff_mono: "a \<le> b \<Longrightarrow> backoff a \<le> backoff b"
  by (simp add: backoff_def power_increasing)

lemma retry_sleeps_bounded:
  assumes "\<forall>k. jitter e k < 100"
  shows "list_all (\<lambda>d. d \<le> 100 * 2 ^ (n - 1) + 99) (retry_sleeps e 0 n)"
proof -
  have "backoff k + jitter e k \<le> 100 * 2 ^ (n - 1) + 99" if "k \<le> n" for k
  proof -
    have "backoff k \<le> backoff n" using that by (rule backoff_mono)
    moreover have "backoff n = 100 * 2 ^ (n - 1)" by (simp add: backoff_def)
    moreover have "jitter e k \<le> 99" using assms [rule_format, of k] by simp
    ultimately show ?thesis by linarith
  qed
  then show ?thesis
    by (auto simp add: retry_sleeps_def list_all_iff)
qed

lemma retries_then_last:
  assumes "1 \<le> maxRetries c"
    and "\<forall>k. 1 \<le> k \<and> int k < maxRetries c \<longrightarrow> server_error (net e k)"
  shows "gitlabClient_request c e =
           gitlabClient_loop c e \<lparr>attempt = nat (maxRetries c) - 1,
              sleeps = retry_sleeps e 0 (nat (maxRetries c) - 1), pending = []\<rparr>"
    and "client_request c e =
           client_loop c e \<lparr>attempt = nat (maxRetries c) - 1,
              sleeps = retry_sleeps e 0 (nat (maxRetries c) - 1),
              pending = armed_timers c 0 (nat (maxRetries c) - 1)\<rparr>"
proof -
  let ?n = "nat (maxRetries c) - 1"
  have a: "\<forall>k. 0 < k \<and> k \<le> 0 + ?n \<longrightarrow> server_error (net e k)"
    using assms by auto
  have b: "int (0 + ?n) < maxRetries c"
    using assms(1) by auto
  show "gitlabClient_request c e =
           gitlabClient_loop c e \<lparr>attempt = ?n, sleeps = retry_sleeps e 0 ?n, pending = []\<rparr>"
    using gitlabClient_loop_retries [OF a b, of "[]"]
    by (simp add: gitlabClient_request_def init_state_def)
  show "client_request c e =
           client_loop c e \<lparr>attempt = ?n, sleeps = retry_sleeps e 0 ?n,
              pending = armed_timers c 0 ?n\<rparr>"
    using client_loop_retries [OF a b, of "[]" "[]"]
    by (simp add: client_request_def init_state_def)
qed

text \<open>
  C2. Let \<open>maxRetries\<close> be at least 1 and let every attempt before the last answer with a
  server error. If attempt number \<open>maxRetries\<close> answers with a 2xx response whose body is
  empty or parses, both clients return its value; if it answers with a server error
  too, both throw the error built from that last response (a plain \<^verbatim>\<open>Error\<close> carrying
  the status, which the taxonomy of the specification calls a transient external
  error). Either way exactly \<open>maxRetries\<close> attempts are made, the delay slept after
  attempt \<open>k\<close> is \<open>100 * 2 ^ (k - 1)\<close> plus the jitter, and with a jitter below 100
  every delay is at most \<open>100 * 2 ^ (maxRetries - 2) + 99\<close>.
\<close>

theorem request_retry_bound:
  assumes "1 \<le> maxRetries c"
    and "\<forall>k. 1 \<le> k \<and> int k < maxRetries c \<longrightarrow> server_error (net e k)"
    and "net e (nat (maxRetries c)) = Responded res"
  shows "(200 \<le> status res \<and> status res < 300
            \<and> (bodyText res = [] \<and> v = JUndefined
               \<or> bodyText res \<noteq> [] \<and> parse e (bodyText res) = Some v)
          \<longrightarrow> fst (gitlabClient_request c e) = Inr v \<and> fst (client_request c e) = Inr v)
       \<and> (server_error (Responded res)
          \<longrightarrow> fst (gitlabClient_request c e) = Inl (api_error res)
              \<and> fst (client_request c e) = Inl (api_error res))
       \<and> ((200 \<le> status res \<and> status res < 300
             \<and> (bodyText res = [] \<or> parse e (bodyText res) \<noteq> None))
            \<or> server_error (Responded res)
          \<longrightarrow> attempt (snd (gitlabClient_request c e)) = nat (maxRetries c)
              \<and> attempt (snd (client_request c e)) = nat (maxRetries c)
              \<and> sleeps (snd (gitlabClient_request c e))
                   = map (\<lambda>k. 100 * 2 ^ (k - 1) + jitter e k) [1 ..< nat (maxRetries c)]
              \<and> sleeps (snd (client_request c e))
                   = map (\<lambda>k. 100 * 2 ^ (k - 1) + jitter e k) [1 ..< nat (maxRetries c)]
              \<and> ((\<forall>k. jitter e k < 100) \<longrightarrow>
                   list_all (\<lambda>d. d \<le> 100 * 2 ^ (nat (maxRetries c) - 2) + 99)
                     (sleeps (snd (gitlabClient_request c e)))))"
proof -
  obtain m where m: "maxRetries c = int (Suc m)"
  proof
    show "maxRetries c = int (Suc (nat (maxRetries c) - 1))"
      using assms(1) by simp
  qed
  have nm: "nat (maxRetries c) = Suc m"
    by (simp add: m)
  have last: "net e (m + 1) = Responded res"
    using assms(3) by (simp add: nm)
  have full: "\<not> int (m + 1) < maxRetries c"
    by (simp add: m)
  have sl: "retry_sleeps e 0 m = map (\<lambda>k. 100 * 2 ^ (k - 1) + jitter e k) [1 ..< Suc m]"
    by (simp add: retry_sleeps_def backoff_def)
  have start1: "gitlabClient_request c e =
           gitlabClient_loop c e \<lparr>attempt = m, sleeps = retry_sleeps e 0 m, pending = []\<rparr>"
    using retries_then_last(1) [OF assms(1,2)] by (simp add: nm)
  have start2: "client_request c e =
           client_loop c e \<lparr>attempt = m, sleeps = retry_sleeps e 0 m, pending = armed_timers c 0 m\<rparr>"
    using retries_then_last(2) [OF assms(1,2)] by (simp add: nm)
  have ok: "gitlabClient_request c e
              = (Inr w, \<lparr>attempt = Suc m, sleeps = retry_sleeps e 0 m, pending = []\<rparr>)
          \<and> client_request c e
              = (Inr w, \<lparr>attempt = Suc m, sleeps = retry_sleeps e 0 m,
                         pending = armed_timers c 0 m @ [(Suc m, timeoutMs c)]\<rparr>)"
    if "200 \<le> status res" "status res < 300"
       "bodyText res = [] \<and> w = JUndefined \<or> bodyText res \<noteq> [] \<and> parse e (bodyText res) = Some w"
    for w
    unfolding start1 start2
    using gitlabClient_loop_success [OF last that] client_loop_success [OF last that]
    by simp
  have bad: "gitlabClient_request c e
              = (Inl (api_error res), \<lparr>attempt = Suc m, sleeps = retry_sleeps e 0 m, pending = []\<rparr>)
          \<and> client_request c e
              = (Inl (api_error res), \<lparr>attempt = Suc m, sleeps = retry_sleeps e 0 m,
                         pending = armed_timers c 0 m @ [(Suc m, timeoutMs c)]\<rparr>)"
    if "server_error (Responded res)"
    unfolding start1 start2
    using gitlabClient_loop_exhausted [OF last that full] client_loop_exhausted [OF last that full]
    by simp
  have bound: "list_all (\<lambda>d. d \<le> 100 * 2 ^ (m - 1) + 99) (retry_sleeps e 0 m)"
    if "\<forall>k. jitter e k < 100"
    using retry_sleeps_bounded [OF that] .
  have c1: "200 \<le> status res \<and> status res < 300
            \<and> (bodyText res = [] \<and> v = JUndefined
               \<or> bodyText res \<noteq> [] \<and> parse e (bodyText res) = Some v)
          \<longrightarrow> fst (gitlabClient_request c e) = Inr v \<and> fst (client_request c e) = Inr v"
    using ok [of v] by fastforce
  have c2: "server_error (Responded res)
          \<longrightarrow> fst (gitlabClient_request c e) = Inl (api_error res)
              \<and> fst (client_request c e) = Inl (api_error res)"
    using bad by fastforce
  have shape: "attempt (snd (gitlabClient_request c e)) = Suc m
              \<and> attempt (snd (client_request c e)) = Suc m
              \<and> sleeps (snd (gitlabClient_request c e)) = retry_sleeps e 0 m
              \<and> sleeps (snd (client_request c e)) = retry_sleeps e 0 m"
    if h: "(200 \<le> status res \<and> status res < 300
             \<and> (bodyText res = [] \<or> parse e (bodyText res) \<noteq> None))
            \<or> server_error (Responded res)"
  proof -
    consider (good) w where "200 \<le> status res" "status res < 300"
        "bodyText res = [] \<and> w = JUndefined \<or> bodyText res \<noteq> [] \<and> parse e (bodyText res) = Some w"
      | (err) "server_error (Responded res)"
      using h by (cases "bodyText res = []") auto
    then show ?thesis
    proof cases
      case good
      from ok [OF good] show ?thesis by simp
    next
      case err
      from bad [OF err] show ?thesis by simp
    qed
  qed
  have c3: "(200 \<le> status res \<and> status res < 300
             \<and> (bodyText res = [] \<or> parse e (bodyText res) \<noteq> None))
            \<or> server_error (Responded res)
          \<longrightarrow> attempt (snd (gitlabClient_request c e)) = Suc m
              \<and> attempt (snd (client_request c e)) = Suc m
              \<and> sleeps (snd (gitlabClient_request c e)) = retry_sleeps e 0 m
              \<and> sleeps (snd (client_request c e)) = retry_sleeps e 0 m
              \<and> ((\<forall>k. jitter e k < 100) \<longrightarrow>
                   list_all (\<lambda>d. d \<le> 100 * 2 ^ (m - 1) + 99)
                     (sleeps (snd (gitlabClient_request c e))))"
  proof
    assume h: "(200 \<le> status res \<and> status res < 300
             \<and> (bodyText res = [] \<or> parse e (bodyText res) \<noteq> None))
            \<or> server_error (Responded res)"
    from shape [OF h] bound show "attempt (snd (gitlabClient_request c e)) = Suc m
              \<and> attempt (snd (client_request c e)) = Suc m
              \<and> sleeps (snd (gitlabClient_request c e)) = retry_sleeps e 0 m
              \<and> sleeps (snd (client_request c e)) = retry_sleeps e 0 m
              \<and> ((\<forall>k. jitter e k < 100) \<longrightarrow>
                   list_all (\<lambda>d. d \<le> 100 * 2 ^ (m - 1) + 99)
                     (sleeps (snd (gitlabClient_request c e))))"
      by simp
  qed
  have m2: "Suc m - 2 = m - 1"
    by simp
  from c1 c2 c3 show ?thesis
    unfolding nm m2 sl [symmetric] by (intro conjI)
qed

lemma ex_client: "maxRetries example_client = 3" "timeoutMs example_client = 15000"
  by (simp_all add: example_client_def new_GitLabClient_def)

theorem request_retry_bound_witness:
  "fst (gitlabClient_request example_client (env_of (\<lambda>k. Responded (if k < 3 then busy else ok_empty))))
     = Inr JUndefined
   \<and> fst (client_request example_client (env_of (\<lambda>k. Responded (if k < 3 then busy else ok_empty))))
     = Inr JUndefined
   \<and> fst (gitlabClient_request example_client (env_of (\<lambda>k. Responded busy))) = Inl (api_error busy)
   \<and> attempt (snd (gitlabClient_request example_client (env_of (\<lambda>k. Responded busy)))) = 3
   \<and> sleeps (snd (gitlabClient_request example_client (env_of (\<lambda>k. Responded busy)))) = [107, 207]"
proof -
  have m: "1 \<le> maxRetries example_client"
    by (simp add: ex_client)
  let ?e1 = "env_of (\<lambda>k. Responded (if k < 3 then busy else ok_empty))"
  let ?e2 = "env_of (\<lambda>k. Responded busy)"
  have f1: "\<forall>k. 1 \<le> k \<and> int k < maxRetries example_client \<longrightarrow> server_error (net ?e1 k)"
    by (simp add: ex_client env_of_def busy_def)
  have f2: "\<forall>k. 1 \<le> k \<and> int k < maxRetries example_client \<longrightarrow> server_error (net ?e2 k)"
    by (simp add: ex_client env_of_def busy_def)
  have l1: "net ?e1 (nat (maxRetries example_client)) = Responded ok_empty"
    by (simp add: ex_client env_of_def)
  have l2: "net ?e2 (nat (maxRetries example_client)) = Responded busy"
    by (simp add: ex_client env_of_def)
  have a: "fst (gitlabClient_request example_client ?e1) = Inr JUndefined
           \<and> fst (client_request example_client ?e1) = Inr JUndefined"
    using request_retry_bound [OF m f1 l1, of JUndefined]
    by (simp add: ok_empty_def)
  have b: "fst (gitlabClient_request example_client ?e2) = Inl (api_error busy)
     \<and> attempt (snd (gitlabClient_request example_client ?e2)) = 3
     \<and> sleeps (snd (gitlabClient_request example_client ?e2)) = [107, 207]"
    using request_retry_bound [OF m f2 l2, of JUndefined]
    by (simp add: busy_def ex_client env_of_def upt_rec)
  from a b show ?thesis by blast
qed

lemma syntax_error_not_retryable:
  "gitlabClient_catch c e a syntax_error = Throw syntax_error"
  "client_catch c e a syntax_error = Throw syntax_error"
  by (simp_all add: gitlabClient_catch_def client_catch_def syntax_error_def)

lemma attempt_responded:
  assumes "net e a = Responded r"
  shows "gitlabClient_attempt c e a = on_response c e a r"
    and "client_attempt c e a = on_response c e a r"
  using assms
  by (simp_all add: gitlabClient_attempt_def client_attempt_def on_response_def
        api_error_not_retryable syntax_error_not_retryable split: option.splits)

lemma on_response_Continue:
  "(\<exists>d. on_response c e a r = Continue d)
     = ((status r = 429 \<or> 500 \<le> status r) \<and> int a < maxRetries c)"
  by (auto simp add: on_response_def split: option.splits)

lemma attempt_on_response:
  assumes "net e a = Responded r"
  shows "(\<exists>d. gitlabClient_attempt c e a = Continue d)
           = ((status r = 429 \<or> 500 \<le> status r) \<and> int a < maxRetries c)"
    and "(\<exists>d. client_attempt c e a = Continue d)
           = ((status r = 429 \<or> 500 \<le> status r) \<and> int a < maxRetries c)"
  by (simp_all only: attempt_responded [OF assms] on_response_Continue)

lemma attempt_4xx:
  assumes "net e a = Responded res" and "400 \<le> status res" and "status res \<le> 499"
    and "status res \<noteq> 429"
  shows "gitlabClient_attempt c e a = Throw (api_error res)"
    and "client_attempt c e a = Throw (api_error res)"
  using assms
  by (simp_all add: gitlabClient_attempt_def client_attempt_def on_response_def
        api_error_not_retryable)

text \<open>
  C8. A first response with a status from 400 to 499 other than 429 ends the request:
  both clients throw the error built from that response after one attempt and
  without sleeping. On any attempt that gets a response, the attempt goes on to a
  retry exactly when the status is 429 or at least 500 (for HTTP statuses, which are
  below 600, the 5xx class) and attempts are left.
\<close>

theorem request_4xx_not_retried:
  assumes "net e 1 = Responded res" and "400 \<le> status res" and "status res \<le> 499"
    and "status res \<noteq> 429"
  shows "gitlabClient_request c e = (Inl (api_error res), \<lparr>attempt = 1, sleeps = [], pending = []\<rparr>)
       \<and> fst (client_request c e) = Inl (api_error res)
       \<and> attempt (snd (client_request c e)) = 1
       \<and> sleeps (snd (client_request c e)) = []
       \<and> (\<forall>a r. net e a = Responded r \<longrightarrow>
             (\<exists>d. gitlabClient_attempt c e a = Continue d)
               = ((status r = 429 \<or> 500 \<le> status r) \<and> int a < maxRetries c)
           \<and> (\<exists>d. client_attempt c e a = Continue d)
               = ((status r = 429 \<or> 500 \<le> status r) \<and> int a < maxRetries c))"
proof -
  have g: "gitlabClient_request c e = (Inl (api_error res), \<lparr>attempt = 1, sleeps = [], pending = []\<rparr>)"
    unfolding gitlabClient_request_def init_state_def
    using assms(1) attempt_4xx(1) [OF assms, of c]
    by (subst gitlabClient_loop.simps)
       (simp add: Let_def race_def arm_timer_def remove_timer_def)
  have k: "client_request c e
             = (Inl (api_error res), \<lparr>attempt = 1, sleeps = [], pending = [(1, timeoutMs c)]\<rparr>)"
    unfolding client_request_def init_state_def
    using assms(1) attempt_4xx(2) [OF assms, of c]
    by (subst client_loop.simps)
       (simp add: Let_def race_def arm_timer_def)
  show ?thesis
    using attempt_on_response [of e _ _ c] by (simp add: g k)
qed

theorem request_4xx_not_retried_witness:
  "gitlabClient_request example_client (env_of (\<lambda>k. Responded not_found))
     = (Inl (new_Error ''GitLab API 404 Not Found: {}''), \<lparr>attempt = 1, sleeps = [], pending = []\<rparr>)
   \<and> fst (client_request example_client (env_of (\<lambda>k. Responded not_found)))
     = Inl (new_Error ''GitLab API 404 Not Found: {}'')"
proof -
  let ?e = "env_of (\<lambda>k. Responded not_found)"
  have r: "net ?e 1 = Responded not_found" by (simp add: env_of_def)
  have s: "400 \<le> status not_found" "status not_found \<le> 499" "status not_found \<noteq> 429"
    by (simp_all add: not_found_def)
  have msg: "api_error not_found = new_Error ''GitLab API 404 Not Found: {}''"
    by (simp add: api_error_def not_found_def decimal.simps)
  from request_4xx_not_retried [OF r s, of example_client] show ?thesis
    by (simp add: msg)
qed

text \<open>
  C4. The client of client.ts arms a timer of \<open>timeoutMs\<close> (15000 by default) in every
  attempt and never cancels it: when the first attempt gets a 200 response, the
  request returns while the timer of that attempt is still pending.
\<close>

theorem client_request_leaves_timer_pending:
  "client_request example_client (env_of (\<lambda>k. Responded ok_empty))
     = (Inr JUndefined, \<lparr>attempt = 1, sleeps = [], pending = [(1, 15000)]\<rparr>)"
  unfolding client_request_def init_state_def
  by (subst client_loop.simps)
     (simp add: Let_def race_def arm_timer_def client_attempt_def on_response_def env_of_def
        ok_empty_def ex_client)

text \<open>
  The client of gitlabClient.ts leaves no timer behind, however the request ends:
  each attempt's timer has fired or has been cancelled by the \<^verbatim>\<open>finally\<close> block. The
  default \<open>timeoutMs\<close> is 15000.
\<close>

lemma gitlabClient_loop_no_pending:
  "pending st = [] \<Longrightarrow> pending (snd (gitlabClient_loop c e st)) = []"
proof (induction c e st rule: gitlabClient_loop.induct)
  case (1 c e st)
  let ?a = "attempt st + 1"
  let ?raced = "race (net e ?a) ?a (arm_timer c ?a (st\<lparr>attempt := ?a\<rparr>))"
  have cleared: "pending (remove_timer ?a ?raced) = []"
    using "1.prems" by (simp add: remove_timer_def race_def arm_timer_def split: fetch_outcome.splits)
  show ?case
  proof (cases "gitlabClient_attempt c e ?a")
    case (Return v)
    then show ?thesis
      using cleared by (subst gitlabClient_loop.simps) (simp add: Let_def)
  next
    case (Throw err)
    then show ?thesis
      using cleared by (subst gitlabClient_loop.simps) (simp add: Let_def)
  next
    case (Continue d)
    have "pending (remove_timer ?a (?raced\<lparr>sleeps := sleeps ?raced @ [d]\<rparr>)) = []"
      using cleared by (simp add: remove_timer_def)
    from "1.IH" [OF refl refl Continue this] Continue
    show ?thesis
      by (subst gitlabClient_loop.simps) (simp add: Let_def)
  qed
qed

theorem gitlabClient_request_cancels_timer:
  "pending (snd (gitlabClient_request c e)) = []
   \<and> timeoutMs (new_GitLabClient (opts\<lparr>opt_timeoutMs := None\<rparr>)) = 15000"
  by (simp add: gitlabClient_request_def gitlabClient_loop_no_pending init_state_def new_GitLabClient_def)

section \<open>Properties of the tracker adapter\<close>

lemma of_char_lower: "is_upper c \<Longrightarrow> (of_char (lower_char c) :: nat) = of_char c + 32"
  by (simp add: lower_char_def is_upper_def)

lemma lower_not_upper: "\<not> is_upper (lower_char c)"
  by (cases "is_upper c") (simp_all add: lower_char_def is_upper_def)

lemma lower_char_eq_iff:
  assumes "\<not> is_upper b"
  shows "(lower_char a = b) = same_letter a b"
proof (cases "is_upper a")
  case True
  have "(lower_char a = b) = ((of_char (lower_char a) :: nat) = of_char b)"
    by (metis of_char_eq_iff)
  also have "\<dots> = ((of_char b :: nat) = of_char a + 32)"
    using True by (auto simp add: of_char_lower)
  finally show ?thesis
    using True assms by (auto simp add: same_letter_def)
next
  case False
  then show ?thesis
    using assms by (auto simp add: same_letter_def lower_char_def)
qed

lemma toLowerCase_eq_iff:
  assumes "list_all (\<lambda>c. \<not> is_upper c) t"
  shows "(toLowerCase s = t) = case_insensitive_eq s t"
  using assms
proof (induction s arbitrary: t)
  case Nil
  then show ?case by (auto simp add: toLowerCase_def case_insensitive_eq_def)
next
  case (Cons a s)
  then show ?case
    by (cases t) (auto simp add: toLowerCase_def case_insensitive_eq_def lower_char_eq_iff)
qed

lemma closed_lower: "list_all (\<lambda>c. \<not> is_upper c) ''closed''"
  by (simp add: is_upper_def)


lemma mapState_expected: "mapState (gl_state d) = expected_state d"
  using toLowerCase_eq_iff [OF closed_lower]
  by (auto simp add: mapState_def expected_state_def Let_def toLowerCase_def case_insensitive_eq_def
        split: option.splits)

lemma undefined_not_closed: "toLowerCase ''undefined'' \<noteq> ''closed''"
  by (simp add: toLowerCase_def)

lemma isCompleted_expected:
  "(toLowerCase (js_String (gl_state d)) = ''closed'') = (expected_state d = IssueClosed)"
  using toLowerCase_eq_iff [OF closed_lower] undefined_not_closed
  by (auto simp add: js_String_def expected_state_def split: option.splits)

text \<open>
  C9. For an upstream issue, \<^verbatim>\<open>getIssue\<close>, \<^verbatim>\<open>listIssues\<close> and \<^verbatim>\<open>createIssue\<close> (of adapter.ts
  and of src/unnamed/part_003) return the state closed exactly when the upstream state is
  "closed" up to letter case, and open otherwise; "opened", "reopened" and a missing
  state are open. \<^verbatim>\<open>isCompleted\<close> returns true exactly when \<^verbatim>\<open>getIssue\<close> returns the state
  closed for the same upstream issue.
\<close>

theorem tracker_state_normalized:
  "map_sum id issue_state (adapter_getIssue (Some d)) = Inr (expected_state d)
   \<and> map_sum id issue_state (part003_getIssue path (Some d)) = Inr (expected_state d)
   \<and> map issue_state (adapter_listIssues (Some ds)) = map expected_state ds
   \<and> map issue_state (part003_listIssues (Some ds)) = map expected_state ds
   \<and> map_sum id issue_state (adapter_createIssue (Some d)) = Inr (expected_state d)
   \<and> map_sum id issue_state (part003_createIssue path (Some d)) = Inr (expected_state d)
   \<and> adapter_isCompleted (Some d) = Inr (map_sum id issue_state (adapter_getIssue (Some d)) = Inr IssueClosed)
   \<and> part003_isCompleted path (Some d)
        = Inr (map_sum id issue_state (part003_getIssue path (Some d)) = Inr IssueClosed)
   \<and> expected_state (d\<lparr>gl_state := Some ''opened''\<rparr>) = IssueOpen
   \<and> expected_state (d\<lparr>gl_state := Some ''reopened''\<rparr>) = IssueOpen
   \<and> expected_state (d\<lparr>gl_state := None\<rparr>) = IssueOpen
   \<and> expected_state (d\<lparr>gl_state := Some ''Closed''\<rparr>) = IssueClosed"
proof -
  have ex: "expected_state (d\<lparr>gl_state := Some ''opened''\<rparr>) = IssueOpen"
    "expected_state (d\<lparr>gl_state := Some ''reopened''\<rparr>) = IssueOpen"
    "expected_state (d\<lparr>gl_state := None\<rparr>) = IssueOpen"
    "expected_state (d\<lparr>gl_state := Some ''Closed''\<rparr>) = IssueClosed"
    by (simp_all add: expected_state_def case_insensitive_eq_def same_letter_def is_upper_def)
  show ?thesis
    by (simp add: adapter_getIssue_def part003_getIssue_def adapter_listIssues_def
          part003_listIssues_def adapter_createIssue_def part003_createIssue_def
          adapter_isCompleted_def part003_isCompleted_def mapState_expected isCompleted_expected
          ex comp_def)
qed

section \<open>Properties of the plugin registry\<close>

lemma slot_name_no_colon: "CHR '':'' \<notin> set (slot_name s)"
  by (cases s) simp_all

lemma append_colon_eq:
  assumes "CHR '':'' \<notin> set a" and "CHR '':'' \<notin> set b"
    and "a @ CHR '':'' # x = b @ CHR '':'' # y"
  shows "a = b \<and> x = y"
  using assms
proof (induction a arbitrary: b)
  case Nil
  then show ?case by (cases b) auto
next
  case (Cons c a)
  then show ?case by (cases b) auto
qed

lemma slot_name_inj: "slot_name s = slot_name t \<Longrightarrow> s = t"
  by (cases s; cases t) simp_all

lemma makeKey_eq_iff: "(makeKey s n = makeKey t m) = (s = t \<and> n = m)"
  using append_colon_eq [OF slot_name_no_colon slot_name_no_colon, of s n t m] slot_name_inj
  by (auto simp add: makeKey_def)







lemma fst_get:
  "fst (get slot name plugins) = map_option entry_instance (map_of plugins (makeKey slot name))"
  by (simp add: get_def split: option.splits)














lemma load_builtin_total: "\<exists>plugins'. load_builtin imp oc b plugins = Inr plugins'"
  by (simp add: load_builtin_def split: sum.splits)

lemma loadBuiltins_loop_total: "\<exists>plugins'. loadBuiltins_loop imp oc bs plugins = Inr plugins'"
proof (induction bs arbitrary: plugins)
  case Nil
  show ?case by simp
next
  case (Cons b bs)
  obtain mid where "load_builtin imp oc b plugins = Inr mid"
    using load_builtin_total by blast
  then show ?case using Cons.IH [of mid] by simp
qed

lemma load_builtin_map:
  assumes "keeps_to_table imp b" and "load_builtin imp oc b plugins = Inr plugins'"
  shows "map_option entry_instance (map_of plugins' k) =
           (if k = makeKey (builtin_slot b) (builtin_name b) \<and> loaded_instance imp oc b \<noteq> None
            then loaded_instance imp oc b
            else map_option entry_instance (map_of plugins k))"
  using assms
  by (auto simp add: load_builtin_def try_load_def keeps_to_table_def loaded_instance_def
        register_def Let_def update_conv' split: sum.splits option.splits)

lemma loadBuiltins_loop_other:
  assumes "list_all (keeps_to_table imp) bs"
    and "loadBuiltins_loop imp oc bs plugins = Inr plugins'"
    and "(slot, name) \<notin> set (map builtin_key bs)"
  shows "fst (get slot name plugins') = fst (get slot name plugins)"
  using assms
proof (induction bs arbitrary: plugins)
  case Nil
  then show ?case by simp
next
  case (Cons b bs)
  obtain mid where mid: "load_builtin imp oc b plugins = Inr mid"
    using load_builtin_total by blast
  with Cons.prems have rest: "loadBuiltins_loop imp oc bs mid = Inr plugins'"
    by simp
  have "makeKey slot name \<noteq> makeKey (builtin_slot b) (builtin_name b)"
    using Cons.prems(3) by (auto simp add: makeKey_eq_iff builtin_key_def)
  then have "fst (get slot name mid) = fst (get slot name plugins)"
    using load_builtin_map [OF _ mid, of "makeKey slot name"] Cons.prems(1)
    by (simp add: fst_get)
  moreover have "fst (get slot name plugins') = fst (get slot name mid)"
    using Cons.IH [OF _ rest] Cons.prems(1,3) by simp
  ultimately show ?case by simp
qed

lemma loadBuiltins_loop_member:
  assumes "list_all (keeps_to_table imp) bs"
    and "distinct (map builtin_key bs)"
    and "loadBuiltins_loop imp oc bs plugins = Inr plugins'"
    and "b \<in> set bs"
  shows "fst (get (builtin_slot b) (builtin_name b) plugins') =
           (if loaded_instance imp oc b \<noteq> None then loaded_instance imp oc b
            else fst (get (builtin_slot b) (builtin_name b) plugins))"
  using assms
proof (induction bs arbitrary: plugins)
  case Nil
  then show ?case by simp
next
  case (Cons c bs)
  obtain mid where mid: "load_builtin imp oc c plugins = Inr mid"
    using load_builtin_total by blast
  with Cons.prems have rest: "loadBuiltins_loop imp oc bs mid = Inr plugins'"
    by simp
  have kc: "keeps_to_table imp c" and kbs: "list_all (keeps_to_table imp) bs"
    using Cons.prems(1) by simp_all
  show ?case
  proof (cases "b = c")
    case True
    have "(builtin_slot b, builtin_name b) \<notin> set (map builtin_key bs)"
      using Cons.prems(2) True by (simp add: builtin_key_def)
    from loadBuiltins_loop_other [OF kbs rest this]
    have "fst (get (builtin_slot b) (builtin_name b) plugins')
            = fst (get (builtin_slot b) (builtin_name b) mid)" .
    also have "\<dots> = (if loaded_instance imp oc b \<noteq> None then loaded_instance imp oc b
            else fst (get (builtin_slot b) (builtin_name b) plugins))"
      using load_builtin_map [OF kc mid, of "makeKey (builtin_slot b) (builtin_name b)"] True
      by (simp add: fst_get)
    finally show ?thesis .
  next
    case False
    then have b: "b \<in> set bs" using Cons.prems(4) by simp
    have "builtin_key b \<noteq> builtin_key c"
    proof
      assume "builtin_key b = builtin_key c"
      then have "builtin_key c \<in> builtin_key ` set bs"
        using b by (metis imageI)
      then show False using Cons.prems(2) by simp
    qed
    then have "makeKey (builtin_slot b) (builtin_name b) \<noteq> makeKey (builtin_slot c) (builtin_name c)"
      by (simp add: makeKey_eq_iff builtin_key_def)
    then have same: "fst (get (builtin_slot b) (builtin_name b) mid)
                 = fst (get (builtin_slot b) (builtin_name b) plugins)"
      using load_builtin_map [OF kc mid, of "makeKey (builtin_slot b) (builtin_name b)"]
      by (simp add: fst_get)
    from Cons.IH [OF kbs _ rest b] Cons.prems(2)
    show ?thesis by (simp add: same)
  qed
qed

lemma BUILTIN_PLUGINS_distinct: "distinct (map builtin_key BUILTIN_PLUGINS)"
  by (simp add: BUILTIN_PLUGINS_def builtin_key_def)


text \<open>
  C7. \<^verbatim>\<open>loadBuiltins\<close> never throws, whatever the importer does. When the packages
  that load keep to the table, then after loading into a fresh registry a row whose
  package failed to import has no instance (its lookup gives null), every row has
  exactly the instance its own package produced, however many other packages are
  absent, and no other key is bound. When every package is absent the registry is
  left as it was.
\<close>

theorem loadBuiltins_skips_absent:
  "(\<exists>plugins'. loadBuiltins imp oc plugins = Inr plugins')
   \<and> (list_all (keeps_to_table imp) BUILTIN_PLUGINS \<longrightarrow>
        (\<exists>loaded. loadBuiltins imp oc createPluginRegistry = Inr loaded
           \<and> (\<forall>b \<in> set BUILTIN_PLUGINS.
                 ((\<exists>e. imp (builtin_pkg b) = Inl e) \<longrightarrow>
                    fst (get (builtin_slot b) (builtin_name b) loaded) = None)
                 \<and> fst (get (builtin_slot b) (builtin_name b) loaded) = loaded_instance imp oc b)
           \<and> (\<forall>slot name. (slot, name) \<notin> set (map builtin_key BUILTIN_PLUGINS) \<longrightarrow>
                 fst (get slot name loaded) = None)))
   \<and> ((\<forall>b \<in> set BUILTIN_PLUGINS. \<exists>e. imp (builtin_pkg b) = Inl e) \<longrightarrow>
        loadBuiltins imp oc plugins = Inr plugins)"
proof (intro conjI impI)
  show "\<exists>plugins'. loadBuiltins imp oc plugins = Inr plugins'"
    unfolding loadBuiltins_def by (rule loadBuiltins_loop_total)
next
  assume keeps: "list_all (keeps_to_table imp) BUILTIN_PLUGINS"
  obtain loaded where l: "loadBuiltins_loop imp oc BUILTIN_PLUGINS createPluginRegistry = Inr loaded"
    using loadBuiltins_loop_total by blast
  have empty: "fst (get slot name createPluginRegistry) = None" for slot name
    by (simp add: fst_get createPluginRegistry_def)
  have row: "fst (get (builtin_slot b) (builtin_name b) loaded) = loaded_instance imp oc b"
    if "b \<in> set BUILTIN_PLUGINS" for b
    using loadBuiltins_loop_member [OF keeps BUILTIN_PLUGINS_distinct l that]
    by (auto simp add: empty)
  have absent: "fst (get (builtin_slot b) (builtin_name b) loaded) = None"
    if "b \<in> set BUILTIN_PLUGINS" "\<exists>e. imp (builtin_pkg b) = Inl e" for b
    using row [OF that(1)] that(2) by (auto simp add: loaded_instance_def)
  have other: "fst (get slot name loaded) = None"
    if "(slot, name) \<notin> set (map builtin_key BUILTIN_PLUGINS)" for slot name
    using loadBuiltins_loop_other [OF keeps l that] by (simp add: empty)
  show "\<exists>loaded. loadBuiltins imp oc createPluginRegistry = Inr loaded
           \<and> (\<forall>b \<in> set BUILTIN_PLUGINS.
                 ((\<exists>e. imp (builtin_pkg b) = Inl e) \<longrightarrow>
                    fst (get (builtin_slot b) (builtin_name b) loaded) = None)
                 \<and> fst (get (builtin_slot b) (builtin_name b) loaded) = loaded_instance imp oc b)
           \<and> (\<forall>slot name. (slot, name) \<notin> set (map builtin_key BUILTIN_PLUGINS) \<longrightarrow>
                 fst (get slot name loaded) = None)"
    unfolding loadBuiltins_def using l row absent other by blast
next
  assume all_absent: "\<forall>b \<in> set BUILTIN_PLUGINS. \<exists>e. imp (builtin_pkg b) = Inl e"
  have "loadBuiltins_loop imp oc bs plugins = Inr plugins"
    if "\<forall>b \<in> set bs. \<exists>e. imp (builtin_pkg b) = Inl e" for bs
    using that
    by (induction bs) (auto simp add: load_builtin_def try_load_def)
  from this [OF all_absent] show "loadBuiltins imp oc plugins = Inr plugins"
    by (simp add: loadBuiltins_def)
qed

lemma only_tmux_keeps_to_table: "list_all (keeps_to_table only_tmux_installed) BUILTIN_PLUGINS"
  by (simp add: BUILTIN_PLUGINS_def keeps_to_table_def only_tmux_installed_def tmux_plugin_def)

theorem loadBuiltins_skips_absent_witness:
  "\<exists>loaded. loadBuiltins only_tmux_installed None createPluginRegistry = Inr loaded
      \<and> fst (get Runtime ''tmux'' loaded) = Some ''tmux-runtime''
      \<and> fst (get Agent ''codex'' loaded) = None
      \<and> fst (get Tracker ''gitlab'' loaded) = None"
proof -
  let ?tmux = "\<lparr>builtin_slot = Runtime, builtin_name = ''tmux'',
                 builtin_pkg = ''@agent-orchestrator/plugin-runtime-tmux''\<rparr>"
  let ?codex = "\<lparr>builtin_slot = Agent, builtin_name = ''codex'',
                  builtin_pkg = ''@agent-orchestrator/plugin-agent-codex''\<rparr>"
  from loadBuiltins_skips_absent [of only_tmux_installed None "[]"] only_tmux_keeps_to_table
  obtain loaded where l: "loadBuiltins only_tmux_installed None createPluginRegistry = Inr loaded"
    and rows: "\<forall>b \<in> set BUILTIN_PLUGINS.
                 ((\<exists>e. only_tmux_installed (builtin_pkg b) = Inl e) \<longrightarrow>
                    fst (get (builtin_slot b) (builtin_name b) loaded) = None)
                 \<and> fst (get (builtin_slot b) (builtin_name b) loaded)
                     = loaded_instance only_tmux_installed None b"
    and others: "\<forall>slot name. (slot, name) \<notin> set (map builtin_key BUILTIN_PLUGINS) \<longrightarrow>
                 fst (get slot name loaded) = None"
    by blast
  have "?tmux \<in> set BUILTIN_PLUGINS"
    by (simp add: BUILTIN_PLUGINS_def)
  with rows have "fst (get Runtime ''tmux'' loaded) = loaded_instance only_tmux_installed None ?tmux"
    by fastforce
  then have a: "fst (get Runtime ''tmux'' loaded) = Some ''tmux-runtime''"
    by (simp add: loaded_instance_def only_tmux_installed_def tmux_plugin_def)
  have "?codex \<in> set BUILTIN_PLUGINS"
    by (simp add: BUILTIN_PLUGINS_def)
  moreover have "\<exists>e. only_tmux_installed (builtin_pkg ?codex) = Inl e"
    by (simp add: only_tmux_installed_def)
  ultimately have b: "fst (get Agent ''codex'' loaded) = None"
    using rows by fastforce
  have "(Tracker, ''gitlab'') \<notin> set (map builtin_key BUILTIN_PLUGINS)"
    by (simp add: BUILTIN_PLUGINS_def builtin_key_def)
  with others have c: "fst (get Tracker ''gitlab'' loaded) = None"
    by blast
  from l a b c show ?thesis by blast
qed

end
